theory Spec2Isabelle
  imports Main "HOL-Library.Multiset" "HOL-Library.Char_ord" "HOL-Library.List_Lexorder"
begin

section \<open>Root module generation of consul-terraform-sync (templates/tftmpl/root.go)\<close>

text \<open>
  The theory embeds \<^verbatim>\<open>templates/tftmpl/root.go\<close>: the normalisation of the input
  (\<^verbatim>\<open>RootModuleInputData.init\<close>), the construction of \<^verbatim>\<open>main.tf\<close>
  (\<^verbatim>\<open>newMainTF\<close> and the three \<^verbatim>\<open>appendRoot...\<close> functions), the preamble
  (\<^verbatim>\<open>writePreamble\<close>) and the loop that writes the files (\<^verbatim>\<open>initModule\<close>).

  Go strings are byte strings and are compared bytewise, which is the lexicographic order
  of \<^typ>\<open>string\<close> here. A Go map is an association list read through \<^const>\<open>map_of\<close>:
  only the first binding of a key is visible, so the list stands for the map that binds
  each key once.
\<close>

subsection \<open>Go maps and the sort package\<close>

definition keys :: "('k \<times> 'v) list \<Rightarrow> 'k list" where
  "keys m = remdups (map fst m)"

definition len :: "('k \<times> 'v) list \<Rightarrow> nat" where
  "len m = length (keys m)"

text \<open>
  \<^verbatim>\<open>sort.Slice(xs, less)\<close>. On a short slice (of at most six elements in every release
  of the Go library, of at most twelve in the recent ones) the library runs the insertion
  sort below: element \<open>i\<close> is swapped with its left neighbour for as long as
  \<open>less(j, j-1)\<close> holds. \<open>insertLess\<close> is the inner loop; the part of the slice that
  is already in order is kept with its nearest element first. On a longer slice the
  library runs other passes, which also end with a rearrangement of the slice in the
  order of \<open>less\<close>; lemma \<open>sorted_rearrangement_unique\<close> below shows that, for
  elements with pairwise different keys, every such procedure returns the same slice.
\<close>

fun insertLess :: "('a \<Rightarrow> 'a \<Rightarrow> bool) \<Rightarrow> 'a \<Rightarrow> 'a list \<Rightarrow> 'a list" where
  "insertLess lt x [] = [x]"
| "insertLess lt x (y # ys) = (if lt x y then y # insertLess lt x ys else x # y # ys)"

definition sort_Slice :: "('a \<Rightarrow> 'a \<Rightarrow> bool) \<Rightarrow> 'a list \<Rightarrow> 'a list" where
  "sort_Slice lt xs = rev (foldl (\<lambda>pre x. insertLess lt x pre) [] xs)"

text \<open>\<^verbatim>\<open>sortedKeys\<close>: the keys of the map, collected and passed to \<^verbatim>\<open>sort.Strings\<close>.\<close>

definition sortedKeys :: "(string \<times> 'v) list \<Rightarrow> string list" where
  "sortedKeys m = sort (keys m)"

subsection \<open>Values and named blocks (packages cty and hcltmpl)\<close>

text \<open>
  A \<^verbatim>\<open>cty.Value\<close>, as far as the generator looks at it: whether its type is an object
  type, and the keys of an object. \<open>CtyNilVal\<close> is the zero \<^verbatim>\<open>cty.Value\<close>, which
  indexing a Go map yields for a key that the map does not hold.
\<close>

datatype cty =
    CtyNilVal
  | CtyString string
  | CtyNumber int
  | CtyBool bool
  | CtyList "cty list"
  | CtyMap "(string \<times> cty) list"
  | CtyObject "(string \<times> cty) list"

fun IsObjectType :: "cty \<Rightarrow> bool" where
  "IsObjectType (CtyObject kvs) = True"
| "IsObjectType v = False"

fun AsValueMap :: "cty \<Rightarrow> (string \<times> cty) list" where
  "AsValueMap (CtyObject kvs) = kvs"
| "AsValueMap (CtyMap kvs) = kvs"
| "AsValueMap v = []"

definition index :: "(string \<times> cty) list \<Rightarrow> string \<Rightarrow> cty" where
  "index m k = (case map_of m k of Some v \<Rightarrow> v | None \<Rightarrow> CtyNilVal)"

text \<open>A decoded configuration value (\<^verbatim>\<open>interface{}\<close> in \<^verbatim>\<open>map[string]interface{}\<close>).\<close>

datatype iface =
    IString string
  | INumber int
  | IBool bool
  | IList "iface list"
  | IMap "(string \<times> iface) list"

record NamedBlock =
  Name :: string
  Variables :: "(string \<times> cty) list"

text \<open>
  Modelled from the spec: \<^verbatim>\<open>NamedBlock.SortedAttributes\<close> of package hcltmpl is not
  among the source files. The spec has the attributes of a NamedBlock iterated "in
  ascending name order".
\<close>

definition SortedAttributes :: "NamedBlock \<Rightarrow> string list" where
  "SortedAttributes b = sort (keys (NamedBlock.Variables b))"

text \<open>
  Modelled from the spec: \<^verbatim>\<open>Variables.Keys\<close> of package hcltmpl is not among the
  source files. The spec has the variables as "an ordered mapping" whose names are used
  in "stable order as provided".
\<close>

definition Keys :: "(string \<times> cty) list \<Rightarrow> string list" where
  "Keys vs = keys vs"

subsection \<open>The syntax tree under construction (package hclwrite)\<close>

text \<open>
  A body is the list of its items in the order of the file. \<^verbatim>\<open>SetAttributeValue\<close> and
  \<^verbatim>\<open>SetAttributeTraversal\<close> of hclwrite replace the expression of an attribute that
  the body already has and append a new attribute otherwise; \<^verbatim>\<open>AppendNewBlock\<close>,
  \<^verbatim>\<open>AppendNewline\<close> and \<^verbatim>\<open>AppendUnstructuredTokens\<close> always append. The Go code
  appends a block and then fills its body through the pointer it got back; here the body
  of the block is built first and the finished block is appended, at the same position.
  A traversal \<^verbatim>\<open>hcl.Traversal{TraverseRoot{a}, TraverseAttr{b}, ...}\<close> is the list of
  its names.
\<close>

datatype expr = Literal cty | Traversal "string list"

datatype item =
    Attribute string expr
  | Block string "string list" "item list"
  | Newline
  | Comment string

fun hasAttribute :: "string \<Rightarrow> item list \<Rightarrow> bool" where
  "hasAttribute name [] = False"
| "hasAttribute name (Attribute n e # b) = (n = name \<or> hasAttribute name b)"
| "hasAttribute name (i # b) = hasAttribute name b"

fun replaceAttribute :: "string \<Rightarrow> expr \<Rightarrow> item list \<Rightarrow> item list" where
  "replaceAttribute name e [] = []"
| "replaceAttribute name e (Attribute n e' # b) =
     (if n = name then Attribute n e # b else Attribute n e' # replaceAttribute name e b)"
| "replaceAttribute name e (i # b) = i # replaceAttribute name e b"

definition setAttribute :: "string \<Rightarrow> expr \<Rightarrow> item list \<Rightarrow> item list" where
  "setAttribute name e b =
     (if hasAttribute name b then replaceAttribute name e b else b @ [Attribute name e])"

definition SetAttributeValue :: "string \<Rightarrow> cty \<Rightarrow> item list \<Rightarrow> item list" where
  "SetAttributeValue name v b = setAttribute name (Literal v) b"

definition SetAttributeTraversal :: "string \<Rightarrow> string list \<Rightarrow> item list \<Rightarrow> item list" where
  "SetAttributeTraversal name tr b = setAttribute name (Traversal tr) b"

definition AppendNewline :: "item list \<Rightarrow> item list" where
  "AppendNewline b = b @ [Newline]"

definition AppendNewBlock :: "string \<Rightarrow> string list \<Rightarrow> item list \<Rightarrow> item list \<Rightarrow> item list" where
  "AppendNewBlock typeName labels inner b = b @ [Block typeName labels inner]"

definition AppendUnstructuredTokens :: "string \<Rightarrow> item list \<Rightarrow> item list" where
  "AppendUnstructuredTokens bytes b = b @ [Comment bytes]"

subsection \<open>The bytes of a file (hclwrite's \<^verbatim>\<open>File.Bytes\<close> followed by \<^verbatim>\<open>Format\<close>)\<close>

text \<open>
  hclwrite is a library outside the repository. \<open>Format_Bytes\<close> writes a body in the
  layout that hclwrite produces for the items used here: one item per line, two spaces of
  indentation per nesting level, block labels and string values in double quotes with
  backslash escapes, an object as one \<open>key = value\<close> line per key between braces. The
  padding that lines up the equals signs of neighbouring attributes is left out.
\<close>

definition nl :: string where
  "nl = [CHR 0x0A]"

definition indent :: "nat \<Rightarrow> string" where
  "indent n = replicate (2 * n) (CHR '' '')"

definition escape :: "char \<Rightarrow> string" where
  "escape c =
     (if c = CHR 0x0A then [CHR 0x5C, CHR ''n'']
      else if c = CHR 0x0D then [CHR 0x5C, CHR ''r'']
      else if c = CHR 0x09 then [CHR 0x5C, CHR ''t'']
      else if c = CHR 0x22 then [CHR 0x5C, CHR 0x22]
      else if c = CHR 0x5C then [CHR 0x5C, CHR 0x5C]
      else [c])"

definition quoted :: "string \<Rightarrow> string" where
  "quoted s = [CHR 0x22] @ concat (map escape s) @ [CHR 0x22]"

definition digit :: "nat \<Rightarrow> char" where
  "digit d = char_of (of_char (CHR ''0'') + d)"

function decimal :: "nat \<Rightarrow> string" where
  "decimal n = (if n < 10 then [digit n] else decimal (n div 10) @ [digit (n mod 10)])"
  by pat_completeness auto
termination
  by (relation "measure (\<lambda>n. n)") auto

definition number :: "int \<Rightarrow> string" where
  "number i = (if i < 0 then ''-'' @ decimal (nat (- i)) else decimal (nat i))"

fun intercalate :: "string \<Rightarrow> string list \<Rightarrow> string" where
  "intercalate sep [] = []"
| "intercalate sep [s] = s"
| "intercalate sep (s # t # ss) = s @ sep @ intercalate sep (t # ss)"

fun value_bytes :: "nat \<Rightarrow> cty \<Rightarrow> string" where
  "value_bytes n CtyNilVal = ''null''"
| "value_bytes n (CtyString s) = quoted s"
| "value_bytes n (CtyNumber i) = number i"
| "value_bytes n (CtyBool b) = (if b then ''true'' else ''false'')"
| "value_bytes n (CtyList vs) = ''['' @ intercalate '', '' (map (value_bytes n) vs) @ '']''"
| "value_bytes n (CtyMap kvs) =
     ''{'' @ nl @
     concat (map (\<lambda>kv. indent (Suc n) @ fst kv @ '' = '' @ value_bytes (Suc n) (snd kv) @ nl) kvs) @
     indent n @ ''}''"
| "value_bytes n (CtyObject kvs) =
     ''{'' @ nl @
     concat (map (\<lambda>kv. indent (Suc n) @ fst kv @ '' = '' @ value_bytes (Suc n) (snd kv) @ nl) kvs) @
     indent n @ ''}''"

fun expr_bytes :: "nat \<Rightarrow> expr \<Rightarrow> string" where
  "expr_bytes n (Literal v) = value_bytes n v"
| "expr_bytes n (Traversal tr) = intercalate ''.'' tr"

fun item_bytes :: "nat \<Rightarrow> item \<Rightarrow> string" where
  "item_bytes n (Attribute name e) = indent n @ name @ '' = '' @ expr_bytes n e @ nl"
| "item_bytes n (Block typeName labels inner) =
     indent n @ typeName @ concat (map (\<lambda>l. '' '' @ quoted l) labels) @ '' {'' @ nl @
     concat (map (item_bytes (Suc n)) inner) @
     indent n @ ''}'' @ nl"
| "item_bytes n Newline = nl"
| "item_bytes n (Comment bytes) = indent n @ bytes"

definition Format_Bytes :: "item list \<Rightarrow> string" where
  "Format_Bytes b = concat (map (item_bytes 0) b)"

subsection \<open>The input data\<close>

record Task =
  Description :: string
  Name :: string
  Source :: string
  Version :: string

record Service =
  Datacenter :: string
  Description :: string
  Name :: string
  Namespace :: string
  Tag :: string
  Filter :: string
  CTSUserDefinedMeta :: "(string \<times> string) list"

text \<open>
  The interface \<^verbatim>\<open>Condition\<close> is declared outside the source files; root.go calls its
  methods \<^verbatim>\<open>SourceIncludesVariable\<close> and \<^verbatim>\<open>appendModuleAttribute\<close>, the second of
  which works on the body of the module block. A nil interface value is \<open>None\<close>.
\<close>

record Condition =
  SourceIncludesVariable :: bool
  appendModuleAttribute :: "item list \<Rightarrow> item list"

record RootModuleInputData =
  TerraformVersion :: "string option"
  Backend :: "(string \<times> iface) list option"
  Providers :: "NamedBlock list"
  ProviderInfo :: "(string \<times> iface) list"
  Services :: "Service list"
  Task :: Task
  Variables :: "(string \<times> cty) list"
  Condition :: "Condition option"
  Path :: string
  FilePerms :: nat
  skipOverride :: bool
  backend :: "NamedBlock option"

subsection \<open>Writers, errors and the log\<close>

text \<open>
  An \<^verbatim>\<open>io.Writer\<close> keeps the bytes it has accepted and counts the calls of
  \<^verbatim>\<open>Write\<close>; \<open>wfail w k\<close> says that call number \<open>k\<close> (from 0) returns an error, in
  which case it accepts no byte. The errors are those of a write, of \<^verbatim>\<open>os.Create\<close> and
  of \<^verbatim>\<open>File.Chmod\<close>, and whatever else a function that writes a file returns.
  \<^verbatim>\<open>log.Printf\<close> appends a line to the log; a line is represented by its message and
  the arguments of the message.
\<close>

datatype error = ErrWrite | ErrCreate | ErrChmod | ErrRender string

record writer =
  wbuf :: string
  wcalls :: nat
  wfail :: "nat \<Rightarrow> bool"

definition Write :: "string \<Rightarrow> writer \<Rightarrow> error option \<times> writer" where
  "Write p w =
     (if wfail w (wcalls w) then (Some ErrWrite, w\<lparr>wcalls := Suc (wcalls w)\<rparr>)
      else (None, w\<lparr>wbuf := wbuf w @ p, wcalls := Suc (wcalls w)\<rparr>))"

datatype logline =
    DEBUG_already_exists_skipping string string
  | INFO_overwriting string string
  | DEBUG_creating string string string
  | ERR_unable_to_create string string error
  | ERR_unable_to_change_permissions string string error
  | ERR_error_writing_content string string error
  | WARN_unable_to_write_preamble_warning string
  | WARN_unable_to_write_task_preamble_warning string

type_synonym tfFileFunc =
  "writer \<Rightarrow> string \<Rightarrow> RootModuleInputData \<Rightarrow> error option \<times> writer \<times> logline list"

text \<open>
  What root.go uses and the source files do not define: the version constraint
  \<^verbatim>\<open>version.CompatibleTerraformVersionConstraint\<close>, \<^verbatim>\<open>hcltmpl.NewNamedBlock\<close>,
  \<^verbatim>\<open>hcl2shim.HCL2ValueFromConfigValue\<close>, and the functions that write the four files
  other than \<^verbatim>\<open>main.tf\<close>. They are parameters of the model.
\<close>

record externals =
  TerraformRequiredVersion :: string
  NewNamedBlock :: "(string \<times> iface) list \<Rightarrow> NamedBlock"
  HCL2ValueFromConfigValue :: "iface \<Rightarrow> cty"
  newVariablesTF :: tfFileFunc
  newModuleVariablesTF :: tfFileFunc
  newTFVarsTmpl :: tfFileFunc
  newProvidersTFVars :: tfFileFunc

subsection \<open>Constants of root.go\<close>

definition RootFilename :: string where
  "RootFilename = ''main.tf''"

definition VarsFilename :: string where
  "VarsFilename = ''variables.tf''"

definition ModuleVarsFilename :: string where
  "ModuleVarsFilename = ''variables.module.tf''"

definition TFVarsTmplFilename :: string where
  "TFVarsTmplFilename = ''terraform.tfvars.tmpl''"

definition ProvidersTFVarsFilename :: string where
  "ProvidersTFVarsFilename = ''providers.tfvars''"

definition RootPreamble :: string where
  "RootPreamble =
     ''# This file is generated by Consul Terraform Sync.'' @ nl @
     ''#'' @ nl @
     ''# The HCL blocks, arguments, variables, and values are derived from the'' @ nl @
     ''# operator configuration for Sync. Any manual changes to this file'' @ nl @
     ''# may not be preserved and could be overwritten by a subsequent update.'' @ nl @
     ''#'' @ nl"

text \<open>\<^verbatim>\<open>fmt.Sprintf(TaskPreamble, name, description)\<close>.\<close>

definition TaskPreamble :: "string \<Rightarrow> string \<Rightarrow> string" where
  "TaskPreamble name description =
     ''# Task: '' @ name @ nl @ ''# Description: '' @ description @ nl"

subsection \<open>\<^verbatim>\<open>RootModuleInputData.init\<close>\<close>

definition init :: "externals \<Rightarrow> RootModuleInputData \<Rightarrow> RootModuleInputData" where
  "init ex d =
     (let d = (case Backend d of
                 Some b \<Rightarrow> d\<lparr>backend := Some (NewNamedBlock ex b)\<rparr>
               | None \<Rightarrow> d\<lparr>Backend := Some []\<rparr>);
          d = d\<lparr>Providers :=
                 sort_Slice (\<lambda>pi pj. NamedBlock.Name pi < NamedBlock.Name pj) (Providers d)\<rparr>;
          d = d\<lparr>Services :=
                 sort_Slice (\<lambda>si sj. Service.Name si < Service.Name sj) (Services d)\<rparr>
      in d)"

subsection \<open>The blocks of main.tf\<close>

definition appendRootTerraformBlock ::
  "externals \<Rightarrow> item list \<Rightarrow> NamedBlock option \<Rightarrow> (string \<times> iface) list \<Rightarrow> item list" where
  "appendRootTerraformBlock ex body backend' providerInfo =
     (let tfBody = SetAttributeValue ''required_version''
                     (CtyString (TerraformRequiredVersion ex)) [];
          tfBody =
            (if len providerInfo \<noteq> 0
             then AppendNewBlock ''required_providers'' []
                    (foldl (\<lambda>requiredProvidersBody pName.
                              case map_of providerInfo pName of
                                Some info \<Rightarrow> SetAttributeValue pName
                                  (HCL2ValueFromConfigValue ex info) requiredProvidersBody
                              | None \<Rightarrow> requiredProvidersBody)
                       [] (sortedKeys providerInfo))
                    tfBody
             else tfBody);
          tfBody =
            (case backend' of
               None \<Rightarrow> tfBody
             | Some bk \<Rightarrow>
                 if NamedBlock.Name bk = [] then tfBody
                 else AppendNewBlock ''backend'' [NamedBlock.Name bk]
                        (foldl (\<lambda>backendBody attr.
                                  SetAttributeValue attr (index (NamedBlock.Variables bk) attr)
                                    backendBody)
                           [] (SortedAttributes bk))
                        tfBody)
      in AppendNewBlock ''terraform'' [] tfBody body)"

text \<open>The body of one provider block: the inner loop of \<^verbatim>\<open>appendRootProviderBlocks\<close>.\<close>

definition providerAttr :: "NamedBlock \<Rightarrow> item list \<Rightarrow> string \<Rightarrow> item list" where
  "providerAttr p providerBody attr =
     (if attr = ''alias'' then providerBody
      else if attr = ''auto_commit'' then providerBody
      else
        let val = index (NamedBlock.Variables p) attr in
        if IsObjectType val then
          let subAttrs = map (\<lambda>kv. (fst kv, True)) (AsValueMap val) in
          AppendNewBlock attr []
            (foldl (\<lambda>objProviderBody subAttr.
                      SetAttributeTraversal subAttr
                        [''var'', NamedBlock.Name p, attr, subAttr] objProviderBody)
               [] (sortedKeys subAttrs))
            providerBody
        else SetAttributeTraversal attr [''var'', NamedBlock.Name p, attr] providerBody)"

definition providerBody :: "NamedBlock \<Rightarrow> item list" where
  "providerBody p = foldl (providerAttr p) [] (SortedAttributes p)"

text \<open>
  The outer loop, at index \<open>i\<close> with the providers from \<open>i\<close> on still to come;
  \<open>lastIdx\<close> is \<^verbatim>\<open>len(providers) - 1\<close>, a Go \<^verbatim>\<open>int\<close>.
\<close>

fun providerLoop :: "int \<Rightarrow> int \<Rightarrow> NamedBlock list \<Rightarrow> item list \<Rightarrow> item list" where
  "providerLoop lastIdx i [] body = body"
| "providerLoop lastIdx i (p # ps) body =
     (let body = AppendNewBlock ''provider'' [NamedBlock.Name p] (providerBody p) body;
          body = (if i \<noteq> lastIdx then AppendNewline body else body)
      in providerLoop lastIdx (i + 1) ps body)"

definition appendRootProviderBlocks :: "item list \<Rightarrow> NamedBlock list \<Rightarrow> item list" where
  "appendRootProviderBlocks body providers =
     providerLoop (int (length providers) - 1) 0 providers body"

definition appendComment :: "item list \<Rightarrow> string \<Rightarrow> item list" where
  "appendComment b comment = AppendNewline (AppendUnstructuredTokens (''# '' @ comment) b)"

definition appendRootModuleBlock ::
  "item list \<Rightarrow> Task \<Rightarrow> Condition option \<Rightarrow> string list \<Rightarrow> item list" where
  "appendRootModuleBlock body task cond varNames =
     (let body = (if Task.Description task \<noteq> [] then appendComment body (Task.Description task)
                  else body);
          moduleBody = SetAttributeValue ''source'' (CtyString (Source task)) [];
          moduleBody =
            (if length (Version task) > 0
             then SetAttributeValue ''version'' (CtyString (Version task)) moduleBody
             else moduleBody);
          moduleBody = SetAttributeTraversal ''services'' [''var'', ''services''] moduleBody;
          moduleBody =
            (case cond of
               None \<Rightarrow> moduleBody
             | Some c \<Rightarrow>
                 if SourceIncludesVariable c then appendModuleAttribute c moduleBody
                 else moduleBody);
          moduleBody = (if length varNames \<noteq> 0 then AppendNewline moduleBody else moduleBody);
          moduleBody =
            foldl (\<lambda>moduleBody name. SetAttributeTraversal name [''var'', name] moduleBody)
              moduleBody varNames
      in AppendNewBlock ''module'' [Task.Name task] moduleBody body)"

subsection \<open>\<^verbatim>\<open>writePreamble\<close> and \<^verbatim>\<open>newMainTF\<close>\<close>

definition writePreamble :: "writer \<Rightarrow> Task \<Rightarrow> string \<Rightarrow> error option \<times> writer \<times> logline list" where
  "writePreamble w task filename =
     (let (err, w) = Write RootPreamble w;
          log1 = (if err \<noteq> None then [WARN_unable_to_write_preamble_warning filename] else []);
          (err, w) = Write (TaskPreamble (Task.Name task) (Task.Description task)) w;
          log2 = (if err \<noteq> None then [WARN_unable_to_write_task_preamble_warning filename]
                  else [])
      in (err, w, log1 @ log2))"

text \<open>The syntax tree that \<^verbatim>\<open>newMainTF\<close> builds between the preamble and the last write.\<close>

definition mainBody :: "externals \<Rightarrow> RootModuleInputData \<Rightarrow> item list" where
  "mainBody ex input =
     (let rootBody = AppendNewline [];
          rootBody = appendRootTerraformBlock ex rootBody (backend input) (ProviderInfo input);
          rootBody = AppendNewline rootBody;
          rootBody = appendRootProviderBlocks rootBody (Providers input);
          rootBody = AppendNewline rootBody
      in appendRootModuleBlock rootBody (Task input) (Condition input)
           (Keys (RootModuleInputData.Variables input)))"

definition newMainTF :: "externals \<Rightarrow> tfFileFunc" where
  "newMainTF ex w filename input =
     (case writePreamble w (Task input) filename of
        (Some err, w, lg) \<Rightarrow> (Some err, w, lg)
      | (None, w, lg) \<Rightarrow>
          (let content = Format_Bytes (mainBody ex input);
               (err, w) = Write content w
           in (err, w, lg)))"

subsection \<open>The file system\<close>

text \<open>
  A file has its bytes and its permission bits. Besides the files, the state holds what
  decides the outcome of the system calls: for which paths \<^verbatim>\<open>os.Stat\<close> fails with an
  error other than "does not exist", for which paths \<^verbatim>\<open>os.Create\<close> and
  \<^verbatim>\<open>File.Chmod\<close> fail, which calls of \<^verbatim>\<open>Write\<close> on a file fail, and the
  permission bits that a newly created file gets. The log is part of the state.
\<close>

record osfile =
  fcontent :: string
  fmode :: nat

record sys =
  files :: "string \<Rightarrow> osfile option"
  stat_error :: "string \<Rightarrow> bool"
  create_error :: "string \<Rightarrow> bool"
  chmod_error :: "string \<Rightarrow> bool"
  write_error :: "string \<Rightarrow> nat \<Rightarrow> bool"
  create_mode :: nat
  logs :: "logline list"

definition Printf :: "logline \<Rightarrow> sys \<Rightarrow> sys" where
  "Printf l s = s\<lparr>logs := logs s @ [l]\<rparr>"

datatype stat_result = StatOk | StatNotExist | StatOtherError

definition os_Stat :: "sys \<Rightarrow> string \<Rightarrow> stat_result" where
  "os_Stat s name =
     (if stat_error s name then StatOtherError
      else if files s name = None then StatNotExist
      else StatOk)"

definition fileExists :: "sys \<Rightarrow> string \<Rightarrow> bool" where
  "fileExists s name =
     (case os_Stat s name of
        StatOk \<Rightarrow> True
      | StatNotExist \<Rightarrow> False
      | StatOtherError \<Rightarrow> True)"

text \<open>
  \<^verbatim>\<open>filepath.Join(dir, name)\<close> for a directory path in clean form and a plain file
  name; the clean-up of the joined path that the library adds is not modelled.
\<close>

definition filepath_Join :: "string \<Rightarrow> string \<Rightarrow> string" where
  "filepath_Join dir name = (if dir = [] then name else dir @ ''/'' @ name)"

text \<open>\<^verbatim>\<open>os.Create\<close> truncates an existing file and keeps its permission bits.\<close>

definition os_Create :: "sys \<Rightarrow> string \<Rightarrow> error option \<times> sys" where
  "os_Create s name =
     (if create_error s name then (Some ErrCreate, s)
      else (None, s\<lparr>files := (files s)(name \<mapsto>
              \<lparr>fcontent = [],
               fmode = (case files s name of Some f \<Rightarrow> fmode f | None \<Rightarrow> create_mode s)\<rparr>)\<rparr>))"

definition Chmod :: "sys \<Rightarrow> string \<Rightarrow> nat \<Rightarrow> error option \<times> sys" where
  "Chmod s name perms =
     (if chmod_error s name then (Some ErrChmod, s)
      else (None, s\<lparr>files := (files s)(name :=
              map_option (\<lambda>f. f\<lparr>fmode := perms\<rparr>) (files s name))\<rparr>))"

text \<open>
  The open file as an \<^verbatim>\<open>io.Writer\<close>, and the state after the writer has been used:
  the bytes it accepted are the bytes of the file.
\<close>

definition fileWriter :: "sys \<Rightarrow> string \<Rightarrow> writer" where
  "fileWriter s name = \<lparr>wbuf = [], wcalls = 0, wfail = write_error s name\<rparr>"

definition written :: "sys \<Rightarrow> string \<Rightarrow> writer \<Rightarrow> sys" where
  "written s name w =
     s\<lparr>files := (files s)(name := map_option (\<lambda>f. f\<lparr>fcontent := wbuf w\<rparr>) (files s name))\<rparr>"

subsection \<open>\<^verbatim>\<open>initModule\<close> and \<^verbatim>\<open>InitRootModule\<close>\<close>

text \<open>
  One round of the loop of \<^verbatim>\<open>initModule\<close>. The result \<open>(None, s)\<close> goes on with the
  next file (the end of the loop body, or \<^verbatim>\<open>continue\<close>); \<open>(Some err, s)\<close> is
  \<^verbatim>\<open>return err\<close>.
\<close>

definition initFile ::
  "RootModuleInputData \<Rightarrow> string \<Rightarrow> tfFileFunc \<Rightarrow> sys \<Rightarrow> error option \<times> sys" where
  "initFile input filename newFileFunc s =
     (if filename = ModuleVarsFilename \<and> len (RootModuleInputData.Variables input) = 0
      then (None, s)
      else
        let filePath = filepath_Join (Path input) filename;
            taskName = Task.Name (Task input)
        in
        if fileExists s filePath \<and> skipOverride input
        then (None, Printf (DEBUG_already_exists_skipping filename taskName) s)
        else
          let s = (if fileExists s filePath then Printf (INFO_overwriting filename taskName) s
                   else s);
              s = Printf (DEBUG_creating filename taskName filePath) s
          in
          case os_Create s filePath of
            (Some err, s) \<Rightarrow> (Some err, Printf (ERR_unable_to_create filename taskName err) s)
          | (None, s) \<Rightarrow>
              (case Chmod s filePath (FilePerms input) of
                 (Some err, s) \<Rightarrow>
                   (Some err, Printf (ERR_unable_to_change_permissions filename taskName err) s)
               | (None, s) \<Rightarrow>
                   (case newFileFunc (fileWriter s filePath) filename input of
                      (err, w, lg) \<Rightarrow>
                        let s = written s filePath w;
                            s = s\<lparr>logs := logs s @ lg\<rparr>
                        in
                        (case err of
                           Some e \<Rightarrow>
                             (Some e, Printf (ERR_error_writing_content filename taskName e) s)
                         | None \<Rightarrow> (None, s)))))"

text \<open>The loop, over the entries of the map in the order in which \<^verbatim>\<open>range\<close> yields them.\<close>

fun initModule ::
  "RootModuleInputData \<Rightarrow> (string \<times> tfFileFunc) list \<Rightarrow> sys \<Rightarrow> error option \<times> sys" where
  "initModule input [] s = (None, s)"
| "initModule input ((filename, newFileFunc) # fileFuncs) s =
     (case initFile input filename newFileFunc s of
        (Some err, s) \<Rightarrow> (Some err, s)
      | (None, s) \<Rightarrow> initModule input fileFuncs s)"

definition rootFileFuncs :: "externals \<Rightarrow> (string \<times> tfFileFunc) list" where
  "rootFileFuncs ex =
     [(RootFilename, newMainTF ex),
      (VarsFilename, newVariablesTF ex),
      (ModuleVarsFilename, newModuleVariablesTF ex)]"

definition tfvarsFileFuncs :: "externals \<Rightarrow> (string \<times> tfFileFunc) list" where
  "tfvarsFileFuncs ex =
     [(TFVarsTmplFilename, newTFVarsTmpl ex),
      (ProvidersTFVarsFilename, newProvidersTFVars ex)]"

text \<open>
  \<^verbatim>\<open>for k, v := range m\<close> visits every key of the map once, in an order that Go leaves
  open. The order is a parameter: \<open>range_map order m\<close> are the entries of \<open>m\<close> as they
  are visited when the keys come in the order \<open>order\<close>.
\<close>

definition range_map :: "'k list \<Rightarrow> ('k \<times> 'v) list \<Rightarrow> ('k \<times> 'v) list" where
  "range_map order m = List.map_filter (\<lambda>k. map_option (Pair k) (map_of m k)) order"

text \<open>
  \<^verbatim>\<open>InitRootModule\<close>. Its first two loops copy the entries of \<^verbatim>\<open>rootFileFuncs\<close> and
  of \<^verbatim>\<open>tfvarsFileFuncs\<close>, five entries with five different keys, into the map
  \<^verbatim>\<open>fileFuncs\<close>; \<open>order\<close> is the order in which the loop of \<^verbatim>\<open>initModule\<close> visits
  the keys of that map. The input that the caller holds afterwards is \<open>init ex input\<close>.
\<close>

definition InitRootModule ::
  "externals \<Rightarrow> string list \<Rightarrow> RootModuleInputData \<Rightarrow> sys \<Rightarrow> error option \<times> sys" where
  "InitRootModule ex order input s =
     (let input = init ex input;
          fileFuncs = rootFileFuncs ex @ tfvarsFileFuncs ex
      in initModule input (range_map order fileFuncs) s)"

section \<open>The generated blocks, as the specification describes them\<close>

text \<open>
  The names of the attributes and the types of the blocks that a body holds itself (not
  those inside its blocks), in the order of the body.
\<close>

fun attributeNames :: "item list \<Rightarrow> string list" where
  "attributeNames [] = []"
| "attributeNames (Attribute n e # b) = n # attributeNames b"
| "attributeNames (i # b) = attributeNames b"

fun blockTypes :: "item list \<Rightarrow> string list" where
  "blockTypes [] = []"
| "blockTypes (Block t ls inner # b) = t # blockTypes b"
| "blockTypes (i # b) = blockTypes b"

text \<open>A blank line between neighbours, none after the last.\<close>

fun blank_between :: "item list \<Rightarrow> item list" where
  "blank_between [] = []"
| "blank_between [b] = [b]"
| "blank_between (b # c # bs) = b # Newline # blank_between (c # bs)"

text \<open>
  The provider block of the specification: a block labelled with the provider name; for
  each attribute in ascending order other than \<open>alias\<close> and \<open>auto_commit\<close>, a nested
  block with one traversal \<open>var.<provider>.<attribute>.<key>\<close> per key in ascending
  order if the value is an object, and the traversal \<open>var.<provider>.<attribute>\<close>
  otherwise.
\<close>

definition provider_attribute :: "NamedBlock \<Rightarrow> string \<Rightarrow> item" where
  "provider_attribute p attr =
     (if IsObjectType (index (NamedBlock.Variables p) attr)
      then Block attr []
             (map (\<lambda>key. Attribute key (Traversal [''var'', NamedBlock.Name p, attr, key]))
                (sort (keys (AsValueMap (index (NamedBlock.Variables p) attr)))))
      else Attribute attr (Traversal [''var'', NamedBlock.Name p, attr]))"

definition provider_block :: "NamedBlock \<Rightarrow> item" where
  "provider_block p =
     Block ''provider'' [NamedBlock.Name p]
       (map (provider_attribute p)
          (filter (\<lambda>attr. attr \<noteq> ''alias'' \<and> attr \<noteq> ''auto_commit'')
             (sort (keys (NamedBlock.Variables p)))))"

text \<open>
  The terraform block of the specification: the version constraint; if provider
  metadata was supplied, a nested block with one entry per provider name in ascending
  order; and the backend block, labelled with the name of the backend, with its
  attributes in ascending order as literal values.
\<close>

definition required_providers_block :: "externals \<Rightarrow> (string \<times> iface) list \<Rightarrow> item list" where
  "required_providers_block ex providerInfo =
     (if providerInfo = [] then []
      else [Block ''required_providers'' []
              (List.map_filter
                 (\<lambda>pName. map_option
                    (\<lambda>info. Attribute pName (Literal (HCL2ValueFromConfigValue ex info)))
                    (map_of providerInfo pName))
                 (sort (keys providerInfo)))])"

definition backend_block :: "NamedBlock \<Rightarrow> item" where
  "backend_block b =
     Block ''backend'' [NamedBlock.Name b]
       (map (\<lambda>attr. Attribute attr (Literal (index (NamedBlock.Variables b) attr)))
          (sort (keys (NamedBlock.Variables b))))"

definition required_version :: "externals \<Rightarrow> item" where
  "required_version ex =
     Attribute ''required_version'' (Literal (CtyString (TerraformRequiredVersion ex)))"

text \<open>
  The module block of the specification. \<open>module_comment\<close> is the comment line above
  the block, \<open>module_arguments\<close> are \<open>source\<close>, \<open>version\<close> and \<open>services\<close>,
  \<open>condition_attribute\<close> lets the condition append its attribute, \<open>blank_line\<close> is
  the blank line before the variables, and \<open>variable_arguments\<close> sets the traversal
  \<open>var.<name>\<close> for each variable name in the order of the list.
\<close>

definition module_comment :: "Task \<Rightarrow> item list" where
  "module_comment task =
     (if Task.Description task = [] then []
      else [Comment (''# '' @ Task.Description task), Newline])"

definition module_arguments :: "Task \<Rightarrow> item list" where
  "module_arguments task =
     [Attribute ''source'' (Literal (CtyString (Source task)))] @
     (if Version task = [] then []
      else [Attribute ''version'' (Literal (CtyString (Version task)))]) @
     [Attribute ''services'' (Traversal [''var'', ''services''])]"

definition condition_attribute :: "Condition option \<Rightarrow> item list \<Rightarrow> item list" where
  "condition_attribute cond moduleBody =
     (case cond of
        None \<Rightarrow> moduleBody
      | Some c \<Rightarrow>
          if SourceIncludesVariable c then appendModuleAttribute c moduleBody else moduleBody)"

definition blank_line :: "string list \<Rightarrow> item list" where
  "blank_line varNames = (if varNames = [] then [] else [Newline])"

definition variable_arguments :: "string list \<Rightarrow> item list \<Rightarrow> item list" where
  "variable_arguments varNames moduleBody =
     foldl (\<lambda>b name. SetAttributeTraversal name [''var'', name] b) moduleBody varNames"

text \<open>
  A file is emitted by a call that starts in state \<open>s\<close> and ends in state \<open>s'\<close>: it
  has been written with the permission bits of the input; or, in the mode that skips
  existing files, it was there before and is as it was.
\<close>

definition emitted :: "RootModuleInputData \<Rightarrow> sys \<Rightarrow> sys \<Rightarrow> string \<Rightarrow> bool" where
  "emitted input s s' filename =
     (let filePath = filepath_Join (Path input) filename in
      if fileExists s filePath \<and> skipOverride input
      then files s' filePath = files s filePath
      else map_option fmode (files s' filePath) = Some (FilePerms input))"

text \<open>
  The round of the loop for a file gets as far as the call of the function that writes
  the file: the file is not left out, not skipped, it can be created and its permission
  bits can be set.
\<close>

definition renders :: "RootModuleInputData \<Rightarrow> string \<Rightarrow> sys \<Rightarrow> bool" where
  "renders input filename s =
     (let filePath = filepath_Join (Path input) filename in
      \<not> (filename = ModuleVarsFilename \<and> len (RootModuleInputData.Variables input) = 0) \<and>
      \<not> (fileExists s filePath \<and> skipOverride input) \<and>
      \<not> create_error s filePath \<and>
      \<not> chmod_error s filePath)"

section \<open>Example data\<close>

text \<open>
  Concrete collaborators, inputs and system states, on which the theorems below are
  instantiated.
\<close>

fun example_shim :: "iface \<Rightarrow> cty" where
  "example_shim (IString s) = CtyString s"
| "example_shim (INumber i) = CtyNumber i"
| "example_shim (IBool b) = CtyBool b"
| "example_shim (IList vs) = CtyList (map example_shim vs)"
| "example_shim (IMap kvs) = CtyObject (map (\<lambda>kv. (fst kv, example_shim (snd kv))) kvs)"

definition example_NewNamedBlock :: "(string \<times> iface) list \<Rightarrow> NamedBlock" where
  "example_NewNamedBlock m =
     (case m of
        (k, IMap kvs) # _ \<Rightarrow>
          \<lparr>NamedBlock.Name = k,
           Variables = map (\<lambda>kv. (fst kv, example_shim (snd kv))) kvs\<rparr>
      | _ \<Rightarrow> \<lparr>NamedBlock.Name = [], Variables = []\<rparr>)"

definition example_renderer :: tfFileFunc where
  "example_renderer w filename input =
     (case Write (''# '' @ filename @ nl) w of (err, w) \<Rightarrow> (err, w, []))"

definition example_externals :: externals where
  "example_externals =
     \<lparr>TerraformRequiredVersion = ''>= 0.13.0, < 1.1.0'',
      NewNamedBlock = example_NewNamedBlock,
      HCL2ValueFromConfigValue = example_shim,
      newVariablesTF = example_renderer,
      newModuleVariablesTF = example_renderer,
      newTFVarsTmpl = example_renderer,
      newProvidersTFVars = example_renderer\<rparr>"

definition example_task :: Task where
  "example_task =
     \<lparr>Task.Description = ''automate services'', Name = ''task'',
      Source = ''namespace/consul-terraform-sync/consul//modules/test'', Version = ''0.0.0''\<rparr>"

definition example_service :: "string \<Rightarrow> Service" where
  "example_service n =
     \<lparr>Datacenter = [], Service.Description = [], Name = n, Namespace = [], Tag = [],
      Filter = [], CTSUserDefinedMeta = []\<rparr>"

definition example_provider :: NamedBlock where
  "example_provider =
     \<lparr>NamedBlock.Name = ''testProvider'',
      Variables =
        [(''alias'', CtyString ''tp''),
         (''attr'', CtyString ''value''),
         (''auth'', CtyObject [(''user'', CtyString ''u''), (''pass'', CtyString ''p'')]),
         (''auto_commit'', CtyBool True),
         (''count'', CtyNumber 10)]\<rparr>"

definition example_input :: RootModuleInputData where
  "example_input =
     \<lparr>TerraformVersion = None,
      Backend =
        Some [(''consul'',
               IMap [(''scheme'', IString ''https''),
                     (''path'', IString ''consul-terraform-sync/terraform'')])],
      Providers =
        [example_provider,
         \<lparr>NamedBlock.Name = ''aws'', Variables = [(''region'', CtyString ''us-east-1'')]\<rparr>],
      ProviderInfo =
        [(''testProvider'',
          IMap [(''source'', IString ''namespace/testProvider''),
                (''version'', IString ''1.0.0'')])],
      Services = [example_service ''web'', example_service ''api''],
      Task = example_task,
      Variables = [(''one'', CtyNumber 1), (''bool_true'', CtyBool True)],
      Condition = None,
      Path = ''sync-tasks/task'',
      FilePerms = 416,
      skipOverride = False,
      backend = None\<rparr>"

definition small_input :: RootModuleInputData where
  "small_input =
     \<lparr>TerraformVersion = None, Backend = None, Providers = [], ProviderInfo = [],
      Services = [],
      Task = \<lparr>Task.Description = [], Name = ''t'', Source = ''m'', Version = []\<rparr>,
      Variables = [], Condition = None, Path = ''d'', FilePerms = 416, skipOverride = False,
      backend = None\<rparr>"

definition example_sys :: sys where
  "example_sys =
     \<lparr>files = Map.empty,
      stat_error = (\<lambda>name. False),
      create_error = (\<lambda>name. False),
      chmod_error = (\<lambda>name. False),
      write_error = (\<lambda>name k. False),
      create_mode = 420,
      logs = []\<rparr>"

definition example_order :: "string list" where
  "example_order =
     [TFVarsTmplFilename, RootFilename, ProvidersTFVarsFilename, ModuleVarsFilename,
      VarsFilename]"

definition example_writer :: writer where
  "example_writer = \<lparr>wbuf = [], wcalls = 0, wfail = (\<lambda>k. False)\<rparr>"

text \<open>Writers that refuse the first write and the second write.\<close>

definition refuses_first :: writer where
  "refuses_first = example_writer\<lparr>wfail := (\<lambda>k. k = 0)\<rparr>"

definition refuses_second :: writer where
  "refuses_second = example_writer\<lparr>wfail := (\<lambda>k. k = 1)\<rparr>"

definition skip_input :: RootModuleInputData where
  "skip_input = small_input\<lparr>skipOverride := True\<rparr>"

text \<open>Two provider blocks of the same name, as two instances of one provider are.\<close>

definition aws_east :: NamedBlock where
  "aws_east = \<lparr>NamedBlock.Name = ''aws'', Variables = [(''region'', CtyString ''us-east-1'')]\<rparr>"

definition aws_west :: NamedBlock where
  "aws_west = \<lparr>NamedBlock.Name = ''aws'', Variables = [(''profile'', CtyString ''west'')]\<rparr>"

text \<open>
  System states: one in which no file can be created (the target directory is missing),
  one that has main.tf already, and two in which a write on main.tf fails, the first
  write (the warning preamble) and the second (the task preamble).
\<close>

definition failing_sys :: sys where
  "failing_sys = example_sys\<lparr>create_error := (\<lambda>name. True)\<rparr>"

definition sentinel_sys :: sys where
  "sentinel_sys =
     example_sys\<lparr>files := [''d/main.tf'' \<mapsto> \<lparr>fcontent = ''sentinel'', fmode = 384\<rparr>]\<rparr>"

definition no_preamble_sys :: sys where
  "no_preamble_sys = example_sys\<lparr>write_error := (\<lambda>name k. name = ''d/main.tf'' \<and> k = 0)\<rparr>"

definition no_task_preamble_sys :: sys where
  "no_task_preamble_sys = example_sys\<lparr>write_error := (\<lambda>name k. name = ''d/main.tf'' \<and> k = 1)\<rparr>"

section \<open>Properties\<close>

subsection \<open>Go maps and sorting\<close>

lemma keys_distinct: "distinct (keys m)"
  by (simp add: keys_def)

lemma mset_insertLess: "mset (insertLess lt x ys) = add_mset x (mset ys)"
  by (induction ys) auto

lemma mset_insertion_loop:
  "mset (foldl (\<lambda>pre x. insertLess lt x pre) acc xs) = mset acc + mset xs"
  by (induction xs arbitrary: acc) (auto simp: mset_insertLess)

lemma mset_sort_Slice: "mset (sort_Slice lt xs) = mset xs"
  by (simp add: sort_Slice_def mset_insertion_loop)

lemma set_insertLess: "set (insertLess lt x ys) = insert x (set ys)"
  by (induction ys) auto

text \<open>
  With \<open>less(i, j)\<close> comparing keys, the part in order stays in order, read from its far
  end.
\<close>

lemma sorted_insertLess:
  fixes f :: "'a \<Rightarrow> 'b::linorder"
  assumes "sorted (map f (rev pre))"
  shows "sorted (map f (rev (insertLess (\<lambda>a b. f a < f b) x pre)))"
  using assms
proof (induction pre)
  case Nil
  then show ?case by simp
next
  case (Cons y ys)
  then show ?case
    by (auto simp: sorted_append set_insertLess intro: order.trans less_imp_le)
qed

lemma sorted_insertion_loop:
  fixes f :: "'a \<Rightarrow> 'b::linorder"
  shows "sorted (map f (rev acc)) \<Longrightarrow>
    sorted (map f (rev (foldl (\<lambda>pre x. insertLess (\<lambda>a b. f a < f b) x pre) acc xs)))"
  by (induction xs arbitrary: acc) (auto simp: sorted_insertLess)

lemma sorted_sort_Slice:
  fixes f :: "'a \<Rightarrow> 'b::linorder"
  shows "sorted (map f (sort_Slice (\<lambda>a b. f a < f b) xs))"
  unfolding sort_Slice_def by (rule sorted_insertion_loop) simp

text \<open>
  A slice whose elements have pairwise different keys has one rearrangement in key
  order only: whatever procedure sorts it returns what \<open>sort_Slice\<close> returns.
\<close>

lemma sorted_rearrangement_unique:
  fixes f :: "'a \<Rightarrow> 'b::linorder"
  assumes "distinct (map f xs)" and "mset ys = mset xs" and "sorted (map f ys)"
  shows "ys = sort_Slice (\<lambda>a b. f a < f b) xs"
proof -
  let ?zs = "sort_Slice (\<lambda>a b. f a < f b) xs"
  have m: "mset ?zs = mset xs" by (rule mset_sort_Slice)
  have sets: "set ys = set xs" "set ?zs = set xs"
    using assms(2) m by (metis set_mset_mset)+
  have inj: "inj_on f (set ys \<union> set ?zs)"
    using assms(1) sets by (simp add: distinct_map)
  have "mset (map f ys) = mset (map f xs)" "mset (map f ?zs) = mset (map f xs)"
    using assms(2) m by simp_all
  then have d: "distinct (map f ys)" "distinct (map f ?zs)"
    using assms(1) by (metis mset_eq_imp_distinct_iff)+
  show ?thesis
    by (rule map_sorted_distinct_set_unique [OF inj assms(3) d(1) sorted_sort_Slice d(2)])
       (simp add: sets)
qed

lemma sort_Slice_rearranged:
  fixes f :: "'a \<Rightarrow> 'b::linorder"
  assumes "distinct (map f xs)" and "mset ys = mset xs"
  shows "sort_Slice (\<lambda>a b. f a < f b) ys = sort_Slice (\<lambda>a b. f a < f b) xs"
proof (rule sorted_rearrangement_unique [OF assms(1)])
  show "mset (sort_Slice (\<lambda>a b. f a < f b) ys) = mset xs"
    by (simp add: mset_sort_Slice assms(2))
  show "sorted (map f (sort_Slice (\<lambda>a b. f a < f b) ys))"
    by (rule sorted_sort_Slice)
qed

lemma init_rearranged:
  assumes "mset ps = mset (Providers d)" and "mset ss = mset (Services d)"
    and "distinct (map NamedBlock.Name (Providers d))"
    and "distinct (map Service.Name (Services d))"
  shows "init ex (d\<lparr>Providers := ps, Services := ss\<rparr>) = init ex d"
  using sort_Slice_rearranged [OF assms(3) assms(1)] sort_Slice_rearranged [OF assms(4) assms(2)]
  by (simp add: init_def Let_def split: option.splits)

lemma Providers_init:
  "Providers (init ex d) =
     sort_Slice (\<lambda>pi pj. NamedBlock.Name pi < NamedBlock.Name pj) (Providers d)"
  by (simp add: init_def Let_def split: option.splits)

lemma Services_init:
  "Services (init ex d) =
     sort_Slice (\<lambda>si sj. Service.Name si < Service.Name sj) (Services d)"
  by (simp add: init_def Let_def split: option.splits)

subsection \<open>Setting attributes\<close>

lemma hasAttribute_iff: "hasAttribute n b \<longleftrightarrow> n \<in> set (attributeNames b)"
  by (induction n b rule: hasAttribute.induct) auto

lemma attributeNames_append [simp]: "attributeNames (b @ c) = attributeNames b @ attributeNames c"
  by (induction b rule: attributeNames.induct) auto

lemma blockTypes_append [simp]: "blockTypes (b @ c) = blockTypes b @ blockTypes c"
  by (induction b rule: blockTypes.induct) auto

lemma setAttribute_fresh:
  "n \<notin> set (attributeNames b) \<Longrightarrow> setAttribute n e b = b @ [Attribute n e]"
  by (simp add: setAttribute_def hasAttribute_iff)

lemma foldl_setAttribute_fresh:
  "distinct ns \<Longrightarrow> set ns \<inter> set (attributeNames b) = {} \<Longrightarrow>
   foldl (\<lambda>b n. setAttribute n (f n) b) b ns = b @ map (\<lambda>n. Attribute n (f n)) ns"
proof (induction ns arbitrary: b)
  case Nil
  then show ?case by simp
next
  case (Cons n ns)
  have "n \<notin> set (attributeNames b)" using Cons.prems by auto
  then have step: "setAttribute n (f n) b = b @ [Attribute n (f n)]"
    by (rule setAttribute_fresh)
  have "set ns \<inter> set (attributeNames (b @ [Attribute n (f n)])) = {}"
    using Cons.prems by auto
  with Cons.IH [of "b @ [Attribute n (f n)]"] Cons.prems step show ?case by simp
qed

lemma keys_map_fst: "keys (map (\<lambda>kv. (fst kv, g kv)) m) = keys m"
  by (simp add: keys_def comp_def)

lemma providerAttr_eq:
  "attr \<notin> set (attributeNames b) \<Longrightarrow>
   providerAttr p b attr =
     (if attr = ''alias'' \<or> attr = ''auto_commit'' then b else b @ [provider_attribute p attr])"
  by (simp add: providerAttr_def provider_attribute_def Let_def AppendNewBlock_def
      SetAttributeTraversal_def setAttribute_fresh sortedKeys_def keys_map_fst
      foldl_setAttribute_fresh [where b = "[]", simplified] keys_distinct)

lemma attributeNames_provider_attribute:
  "set (attributeNames [provider_attribute p attr]) \<subseteq> {attr}"
  by (simp add: provider_attribute_def)

lemma foldl_providerAttr:
  "distinct as \<Longrightarrow> set as \<inter> set (attributeNames b) = {} \<Longrightarrow>
   foldl (providerAttr p) b as =
     b @ map (provider_attribute p)
           (filter (\<lambda>attr. attr \<noteq> ''alias'' \<and> attr \<noteq> ''auto_commit'') as)"
proof (induction as arbitrary: b)
  case Nil
  then show ?case by simp
next
  case (Cons a as)
  have fresh: "a \<notin> set (attributeNames b)" using Cons.prems by auto
  show ?case
  proof (cases "a = ''alias'' \<or> a = ''auto_commit''")
    case True
    then have "providerAttr p b a = b" using fresh by (simp add: providerAttr_eq)
    moreover have "set as \<inter> set (attributeNames b) = {}" using Cons.prems by auto
    ultimately show ?thesis using Cons.IH [of b] Cons.prems True by auto
  next
    case False
    then have step: "providerAttr p b a = b @ [provider_attribute p a]"
      using fresh by (simp add: providerAttr_eq)
    have "set as \<inter> set (attributeNames (b @ [provider_attribute p a])) = {}"
      using Cons.prems attributeNames_provider_attribute [of p a] by auto
    with Cons.IH [of "b @ [provider_attribute p a]"] Cons.prems step False
    show ?thesis by simp
  qed
qed

lemma providerBody_eq:
  "Block ''provider'' [NamedBlock.Name p] (providerBody p) = provider_block p"
  by (simp add: providerBody_def provider_block_def SortedAttributes_def
      foldl_providerAttr keys_distinct)

lemma blank_between_Cons:
  "blank_between (x # xs) = x # (if xs = [] then [] else Newline # blank_between xs)"
  by (cases xs) simp_all

lemma providerLoop_eq:
  "providerLoop (i + int (length ps) - 1) i ps body =
     body @ blank_between (map (\<lambda>p. Block ''provider'' [NamedBlock.Name p] (providerBody p)) ps)"
proof (induction ps arbitrary: i body)
  case Nil
  then show ?case by simp
next
  case (Cons p ps)
  have idx: "i + int (length (p # ps)) - 1 = (i + 1) + int (length ps) - 1" by simp
  have last: "i \<noteq> i + int (length (p # ps)) - 1 \<longleftrightarrow> ps \<noteq> []" by auto
  show ?case
    unfolding idx
    apply (simp only: providerLoop.simps Let_def Cons.IH)
    using last apply (simp add: blank_between_Cons AppendNewBlock_def AppendNewline_def)
    done
qed

lemma providerBody_items:
  "providerBody p =
     map (provider_attribute p)
       (filter (\<lambda>attr. attr \<noteq> ''alias'' \<and> attr \<noteq> ''auto_commit'')
          (sort (keys (NamedBlock.Variables p))))"
  using providerBody_eq [of p] by (simp add: provider_block_def)

lemma attributeNames_provider_attributes:
  "attributeNames (map (provider_attribute p) as) =
     filter (\<lambda>attr. \<not> IsObjectType (index (NamedBlock.Variables p) attr)) as"
  by (induction as) (simp_all add: provider_attribute_def)

lemma blockTypes_provider_attributes:
  "blockTypes (map (provider_attribute p) as) =
     filter (\<lambda>attr. IsObjectType (index (NamedBlock.Variables p) attr)) as"
  by (induction as) (simp_all add: provider_attribute_def)

lemma foldl_SetAttributeValue_fresh:
  "distinct ns \<Longrightarrow>
   foldl (\<lambda>b n. SetAttributeValue n (f n) b) [] ns = map (\<lambda>n. Attribute n (Literal (f n))) ns"
  using foldl_setAttribute_fresh [of ns "[]" "\<lambda>n. Literal (f n)"]
  by (simp add: SetAttributeValue_def)

lemma required_providers_loop:
  "distinct ns \<Longrightarrow> set ns \<inter> set (attributeNames b) = {} \<Longrightarrow>
   foldl (\<lambda>requiredProvidersBody pName.
            case map_of providerInfo pName of
              Some info \<Rightarrow> SetAttributeValue pName (g info) requiredProvidersBody
            | None \<Rightarrow> requiredProvidersBody) b ns =
   b @ List.map_filter
         (\<lambda>pName. map_option (\<lambda>info. Attribute pName (Literal (g info)))
            (map_of providerInfo pName)) ns"
proof (induction ns arbitrary: b)
  case Nil
  then show ?case by (simp add: map_filter_simps)
next
  case (Cons n ns)
  have fresh: "n \<notin> set (attributeNames b)" using Cons.prems by auto
  show ?case
  proof (cases "map_of providerInfo n")
    case None
    moreover have "set ns \<inter> set (attributeNames b) = {}" using Cons.prems by auto
    ultimately show ?thesis using Cons.IH [of b] Cons.prems by (simp add: map_filter_simps)
  next
    case (Some info)
    have "set ns \<inter> set (attributeNames (b @ [Attribute n (Literal (g info))])) = {}"
      using Cons.prems by auto
    with Cons.IH [of "b @ [Attribute n (Literal (g info))]"] Cons.prems Some fresh
    show ?thesis
      by (simp add: map_filter_simps SetAttributeValue_def setAttribute_fresh)
  qed
qed

lemma len_eq_0: "len m = 0 \<longleftrightarrow> m = []"
  by (cases m) (auto simp: len_def keys_def)

lemma appendRootTerraformBlock_eq:
  "appendRootTerraformBlock ex body bk providerInfo =
     body @ [Block ''terraform'' []
       (required_version ex # required_providers_block ex providerInfo @
        (case bk of None \<Rightarrow> []
         | Some b \<Rightarrow> if NamedBlock.Name b = [] then [] else [backend_block b]))]"
proof -
  have rp: "foldl (\<lambda>requiredProvidersBody pName.
            case map_of providerInfo pName of
              Some info \<Rightarrow> SetAttributeValue pName (HCL2ValueFromConfigValue ex info)
                requiredProvidersBody
            | None \<Rightarrow> requiredProvidersBody) [] (sortedKeys providerInfo) =
      List.map_filter
         (\<lambda>pName. map_option
            (\<lambda>info. Attribute pName (Literal (HCL2ValueFromConfigValue ex info)))
            (map_of providerInfo pName)) (sort (keys providerInfo))"
    using required_providers_loop
            [where ns = "sort (keys providerInfo)" and b = "[]" and providerInfo = providerInfo
               and g = "HCL2ValueFromConfigValue ex"]
    by (simp add: sortedKeys_def keys_distinct)
  have bb: "\<And>b. foldl (\<lambda>backendBody attr.
              SetAttributeValue attr (index (NamedBlock.Variables b) attr) backendBody)
            [] (SortedAttributes b) =
         map (\<lambda>attr. Attribute attr (Literal (index (NamedBlock.Variables b) attr)))
           (sort (keys (NamedBlock.Variables b)))"
    by (simp add: SortedAttributes_def foldl_SetAttributeValue_fresh keys_distinct)
  have rv: "SetAttributeValue ''required_version'' v [] = [Attribute ''required_version'' (Literal v)]"
    for v by (simp add: SetAttributeValue_def setAttribute_def)
  show ?thesis
    unfolding appendRootTerraformBlock_def Let_def rp bb rv
    by (simp add: AppendNewBlock_def required_version_def required_providers_block_def
        backend_block_def len_eq_0 split: option.splits)
qed

lemma appendRootModuleBlock_eq:
  "appendRootModuleBlock body task cond varNames =
     body @ module_comment task @
     [Block ''module'' [Task.Name task]
        (variable_arguments varNames
           (condition_attribute cond (module_arguments task) @ blank_line varNames))]"
  by (simp add: appendRootModuleBlock_def Let_def module_comment_def appendComment_def
      AppendNewline_def AppendUnstructuredTokens_def AppendNewBlock_def module_arguments_def
      condition_attribute_def blank_line_def variable_arguments_def SetAttributeValue_def
      SetAttributeTraversal_def setAttribute_def split: option.splits)

subsection \<open>Writing main.tf\<close>

lemma Write_eq:
  "Write p w =
     (if wfail w (wcalls w) then Some ErrWrite else None,
      w\<lparr>wbuf := wbuf w @ (if wfail w (wcalls w) then [] else p), wcalls := Suc (wcalls w)\<rparr>)"
  by (simp add: Write_def)

lemma writePreamble_eq:
  "writePreamble w task filename =
     (if wfail w (Suc (wcalls w)) then Some ErrWrite else None,
      w\<lparr>wbuf := wbuf w @ (if wfail w (wcalls w) then [] else RootPreamble) @
                (if wfail w (Suc (wcalls w)) then []
                 else TaskPreamble (Task.Name task) (Task.Description task)),
        wcalls := Suc (Suc (wcalls w))\<rparr>,
      (if wfail w (wcalls w) then [WARN_unable_to_write_preamble_warning filename] else []) @
      (if wfail w (Suc (wcalls w)) then [WARN_unable_to_write_task_preamble_warning filename]
       else []))"
  by (simp add: writePreamble_def Write_def Let_def)

lemma newMainTF_error:
  "fst (newMainTF ex w filename input) =
     (if wfail w (Suc (wcalls w)) \<or> wfail w (Suc (Suc (wcalls w))) then Some ErrWrite else None)"
  by (simp add: newMainTF_def writePreamble_eq Write_def Let_def)

lemma newMainTF_bytes:
  "fst (newMainTF ex w filename input) = None \<Longrightarrow>
   wbuf (fst (snd (newMainTF ex w filename input))) =
     wbuf w @ (if wfail w (wcalls w) then [] else RootPreamble) @
     TaskPreamble (Task.Name (Task input)) (Task.Description (Task input)) @
     Format_Bytes (mainBody ex input)"
  by (simp add: newMainTF_def writePreamble_eq Write_def Let_def split: if_splits)

lemma newMainTF_log:
  "snd (snd (newMainTF ex w filename input)) =
     (if wfail w (wcalls w) then [WARN_unable_to_write_preamble_warning filename] else []) @
     (if wfail w (Suc (wcalls w)) then [WARN_unable_to_write_task_preamble_warning filename]
      else [])"
  by (simp add: newMainTF_def writePreamble_eq Write_def Let_def split: if_splits)

lemma mainBody_eq:
  "mainBody ex input =
     Newline #
     Block ''terraform'' []
       (required_version ex # required_providers_block ex (ProviderInfo input) @
        (case backend input of None \<Rightarrow> []
         | Some b \<Rightarrow> if NamedBlock.Name b = [] then [] else [backend_block b])) #
     Newline #
     blank_between (map provider_block (Providers input)) @
     Newline #
     module_comment (Task input) @
     [Block ''module'' [Task.Name (Task input)]
        (variable_arguments (Keys (RootModuleInputData.Variables input))
           (condition_attribute (Condition input) (module_arguments (Task input)) @
            blank_line (Keys (RootModuleInputData.Variables input))))]"
  using providerLoop_eq [of 0 "Providers input"]
  by (simp add: mainBody_def Let_def AppendNewline_def appendRootTerraformBlock_eq
      appendRootProviderBlocks_def providerBody_eq appendRootModuleBlock_eq)

text \<open>
  The tree of main.tf for the input of the examples: the providers in the order of their
  names, the module block last.
\<close>

lemma main_tf_example:
  "mainBody example_externals (init example_externals example_input) =
     [Newline,
      Block ''terraform'' []
        [Attribute ''required_version'' (Literal (CtyString ''>= 0.13.0, < 1.1.0'')),
         Block ''required_providers'' []
           [Attribute ''testProvider''
              (Literal (CtyObject [(''source'', CtyString ''namespace/testProvider''),
                                   (''version'', CtyString ''1.0.0'')]))],
         Block ''backend'' [''consul'']
           [Attribute ''path'' (Literal (CtyString ''consul-terraform-sync/terraform'')),
            Attribute ''scheme'' (Literal (CtyString ''https''))]],
      Newline,
      Block ''provider'' [''aws'']
        [Attribute ''region'' (Traversal [''var'', ''aws'', ''region''])],
      Newline,
      Block ''provider'' [''testProvider'']
        [Attribute ''attr'' (Traversal [''var'', ''testProvider'', ''attr'']),
         Block ''auth'' []
           [Attribute ''pass'' (Traversal [''var'', ''testProvider'', ''auth'', ''pass'']),
            Attribute ''user'' (Traversal [''var'', ''testProvider'', ''auth'', ''user''])],
         Attribute ''count'' (Traversal [''var'', ''testProvider'', ''count''])],
      Newline,
      Comment ''# automate services'',
      Newline,
      Block ''module'' [''task'']
        [Attribute ''source''
           (Literal (CtyString ''namespace/consul-terraform-sync/consul//modules/test'')),
         Attribute ''version'' (Literal (CtyString ''0.0.0'')),
         Attribute ''services'' (Traversal [''var'', ''services'']),
         Newline,
         Attribute ''one'' (Traversal [''var'', ''one'']),
         Attribute ''bool_true'' (Traversal [''var'', ''bool_true''])]]"
  by code_simp

subsection \<open>The bytes of main.tf\<close>

lemma length_quoted_append:
  "length (quoted (a @ b)) = length (quoted a) + length (concat (map escape b))"
  by (simp add: quoted_def)

lemma name_in_bytes_differs:
  assumes "n1 \<noteq> n2"
  shows "P @ n1 @ X @ quoted n1 @ Y \<noteq> P @ n2 @ X @ quoted n2 @ Y"
proof
  assume e: "P @ n1 @ X @ quoted n1 @ Y = P @ n2 @ X @ quoted n2 @ Y"
  have "length (P @ n1 @ X @ quoted n1 @ Y) = length (P @ n2 @ X @ quoted n2 @ Y)"
    by (simp only: e)
  then have len: "length n1 + length (quoted n1) = length n2 + length (quoted n2)"
    by simp
  from e have eq: "n1 @ (X @ quoted n1 @ Y) = n2 @ (X @ quoted n2 @ Y)"
    by (simp only: same_append_eq)
  from eq [unfolded append_eq_append_conv2]
  consider u where "n1 = n2 @ u" | u where "n2 = n1 @ u"
    by blast
  then show False
  proof cases
    case 1
    have "length (quoted n1) = length (quoted n2) + length (concat (map escape u))"
      unfolding 1 by (rule length_quoted_append)
    moreover have "length n1 = length n2 + length u"
      unfolding 1 by simp
    ultimately have "u = []" using len by simp
    with 1 assms show False by simp
  next
    case 2
    have "length (quoted n2) = length (quoted n1) + length (concat (map escape u))"
      unfolding 2 by (rule length_quoted_append)
    moreover have "length n2 = length n1 + length u"
      unfolding 2 by simp
    ultimately have "u = []" using len by simp
    with 2 assms show False by simp
  qed
qed

lemma Format_Bytes_append: "Format_Bytes (b @ c) = Format_Bytes b @ Format_Bytes c"
  by (simp add: Format_Bytes_def)

lemma Format_Bytes_Cons: "Format_Bytes (i # b) = item_bytes 0 i @ Format_Bytes b"
  by (simp add: Format_Bytes_def)

lemma content_split:
  "\<exists>X Y. \<forall>n. 
     TaskPreamble n (Task.Description (Task input)) @
       Format_Bytes (mainBody ex (input\<lparr>Task := (Task input)\<lparr>Task.Name := n\<rparr>\<rparr>)) =
     ''# Task: '' @ n @ X @ quoted n @ Y"
proof -
  let ?pre = "Newline #
     Block ''terraform'' []
       (required_version ex # required_providers_block ex (ProviderInfo input) @
        (case backend input of None \<Rightarrow> []
         | Some b \<Rightarrow> if NamedBlock.Name b = [] then [] else [backend_block b])) #
     Newline #
     blank_between (map provider_block (Providers input)) @
     Newline #
     module_comment (Task input)"
  let ?mb = "variable_arguments (Keys (RootModuleInputData.Variables input))
           (condition_attribute (Condition input) (module_arguments (Task input)) @
            blank_line (Keys (RootModuleInputData.Variables input)))"
  let ?X = "nl @ ''# Description: '' @ Task.Description (Task input) @ nl @
            Format_Bytes ?pre @ ''module ''"
  let ?Y = "'' {'' @ nl @ concat (map (item_bytes (Suc 0)) ?mb) @ ''}'' @ nl"
  have "TaskPreamble n (Task.Description (Task input)) @
       Format_Bytes (mainBody ex (input\<lparr>Task := (Task input)\<lparr>Task.Name := n\<rparr>\<rparr>)) =
     ''# Task: '' @ n @ ?X @ quoted n @ ?Y" for n
  proof -
    have "mainBody ex (input\<lparr>Task := (Task input)\<lparr>Task.Name := n\<rparr>\<rparr>) =
       ?pre @ [Block ''module'' [n] ?mb]"
      by (simp add: mainBody_eq module_comment_def module_arguments_def)
    then show ?thesis
      by (simp add: TaskPreamble_def Format_Bytes_append Format_Bytes_Cons indent_def
          Format_Bytes_def [of "[]"])
  qed
  then show ?thesis by blast
qed

subsection \<open>Order of the providers and services\<close>

text \<open>
  Claim C1, as amended. \<open>init\<close> leaves the providers and the services in ascending
  order of their names. When the provider names are pairwise different and the service
  names are pairwise different, rearranging the \<open>Providers\<close> and the \<open>Services\<close> of the
  input changes neither the normalised input nor anything that \<open>InitRootModule\<close> does:
  the same result, the same files with the same bytes (those of main.tf among them) and
  the same log, for every order in which the files are visited and whatever the
  functions for the other four files write. By \<open>sorted_rearrangement_unique\<close> this does
  not depend on the procedure that the library sorts with.
\<close>

theorem InitRootModule_order_independent:
  assumes "mset ps = mset (Providers d)" and "mset ss = mset (Services d)"
    and "distinct (map NamedBlock.Name (Providers d))"
    and "distinct (map Service.Name (Services d))"
  shows "sorted (map NamedBlock.Name (Providers (init ex d))) \<and>
         sorted (map Service.Name (Services (init ex d))) \<and>
         init ex (d\<lparr>Providers := ps, Services := ss\<rparr>) = init ex d \<and>
         InitRootModule ex order (d\<lparr>Providers := ps, Services := ss\<rparr>) s =
           InitRootModule ex order d s"
  using init_rearranged [OF assms]
  by (simp add: InitRootModule_def Providers_init Services_init sorted_sort_Slice)

theorem InitRootModule_order_independent_witness:
  "mset [aws_east, example_provider] =
     mset (Providers (small_input\<lparr>Providers := [example_provider, aws_east]\<rparr>)) \<and>
   InitRootModule example_externals example_order
     (small_input\<lparr>Providers := [aws_east, example_provider],
        Services := [example_service ''web'', example_service ''api'']\<rparr>) example_sys =
   InitRootModule example_externals example_order
     (small_input\<lparr>Providers := [example_provider, aws_east],
        Services := [example_service ''api'', example_service ''web'']\<rparr>) example_sys"
proof -
  let ?d = "small_input\<lparr>Providers := [example_provider, aws_east],
              Services := [example_service ''api'', example_service ''web'']\<rparr>"
  have h1: "mset [aws_east, example_provider] = mset (Providers ?d)" by simp
  have h2: "mset [example_service ''web'', example_service ''api''] = mset (Services ?d)"
    by simp
  have h3: "distinct (map NamedBlock.Name (Providers ?d))"
    by (simp add: example_provider_def aws_east_def)
  have h4: "distinct (map Service.Name (Services ?d))"
    by (simp add: example_service_def)
  show ?thesis
    using InitRootModule_order_independent
            [OF h1 h2 h3 h4, of example_externals example_order example_sys]
    by simp
qed

text \<open>
  Claim C1 as stated fails for providers that share a name: \<open>less\<close> holds in neither
  direction, the sort leaves the two blocks as they came, and main.tf has them in the
  order of the input.
\<close>

theorem order_independence_counterexample:
  "mset [aws_west, aws_east] = mset [aws_east, aws_west] \<and>
   map_option fcontent (files (snd (InitRootModule example_externals example_order
          (small_input\<lparr>Providers := [aws_west, aws_east]\<rparr>) example_sys)) ''d/main.tf'')
   \<noteq> map_option fcontent (files (snd (InitRootModule example_externals example_order
          (small_input\<lparr>Providers := [aws_east, aws_west]\<rparr>) example_sys)) ''d/main.tf'')"
  by code_simp

subsection \<open>Provider blocks\<close>

text \<open>
  Claim C2. The body of the block that \<open>appendRootProviderBlocks\<close> appends for a
  provider \<open>p\<close> is \<open>providerBody p\<close>. Neither \<open>alias\<close> nor \<open>auto_commit\<close> is the
  name of an attribute or of a nested block of that body, whether or not \<open>p\<close> has them;
  every other attribute of \<open>p\<close> is there, as an attribute if its value is not an object
  and as a nested block if it is.
\<close>

theorem provider_block_suppressed_attributes:
  "appendRootProviderBlocks body providers =
     body @ blank_between
       (map (\<lambda>p. Block ''provider'' [NamedBlock.Name p] (providerBody p)) providers) \<and>
   ''alias'' \<notin> set (attributeNames (providerBody p)) \<and>
   ''auto_commit'' \<notin> set (attributeNames (providerBody p)) \<and>
   ''alias'' \<notin> set (blockTypes (providerBody p)) \<and>
   ''auto_commit'' \<notin> set (blockTypes (providerBody p)) \<and>
   set (attributeNames (providerBody p)) =
     {attr \<in> set (keys (NamedBlock.Variables p)). attr \<noteq> ''alias'' \<and> attr \<noteq> ''auto_commit'' \<and>
        \<not> IsObjectType (index (NamedBlock.Variables p) attr)} \<and>
   set (blockTypes (providerBody p)) =
     {attr \<in> set (keys (NamedBlock.Variables p)). attr \<noteq> ''alias'' \<and> attr \<noteq> ''auto_commit'' \<and>
        IsObjectType (index (NamedBlock.Variables p) attr)}"
proof -
  have loop: "appendRootProviderBlocks body providers =
     body @ blank_between
       (map (\<lambda>p. Block ''provider'' [NamedBlock.Name p] (providerBody p)) providers)"
    using providerLoop_eq [of 0 providers body] by (simp add: appendRootProviderBlocks_def)
  have names: "attributeNames (providerBody p) =
      filter (\<lambda>attr. \<not> IsObjectType (index (NamedBlock.Variables p) attr))
        (filter (\<lambda>attr. attr \<noteq> ''alias'' \<and> attr \<noteq> ''auto_commit'')
           (sort (keys (NamedBlock.Variables p))))"
    by (simp only: providerBody_items attributeNames_provider_attributes)
  have types: "blockTypes (providerBody p) =
      filter (\<lambda>attr. IsObjectType (index (NamedBlock.Variables p) attr))
        (filter (\<lambda>attr. attr \<noteq> ''alias'' \<and> attr \<noteq> ''auto_commit'')
           (sort (keys (NamedBlock.Variables p))))"
    by (simp only: providerBody_items blockTypes_provider_attributes)
  show ?thesis
    unfolding names types using loop by auto
qed

text \<open>
  Claim C3. \<open>appendRootProviderBlocks\<close> appends, for the providers in the order of the
  list, the provider blocks that the specification describes (\<open>provider_block\<close>), with
  a blank line between two neighbours and none after the last.
\<close>

theorem appendRootProviderBlocks_eq:
  "appendRootProviderBlocks body providers = body @ blank_between (map provider_block providers)"
  using providerLoop_eq [of 0 providers body]
  by (simp add: appendRootProviderBlocks_def providerBody_eq)

text \<open>
  The provider of the examples: \<open>alias\<close> and \<open>auto_commit\<close> are left out, the object
  \<open>auth\<close> becomes a nested block with its keys in ascending order.
\<close>

lemma provider_block_example:
  "appendRootProviderBlocks [] [example_provider] =
     [Block ''provider'' [''testProvider'']
        [Attribute ''attr'' (Traversal [''var'', ''testProvider'', ''attr'']),
         Block ''auth'' []
           [Attribute ''pass'' (Traversal [''var'', ''testProvider'', ''auth'', ''pass'']),
            Attribute ''user'' (Traversal [''var'', ''testProvider'', ''auth'', ''user''])],
         Attribute ''count'' (Traversal [''var'', ''testProvider'', ''count''])]]"
  by code_simp

subsection \<open>The module block\<close>

text \<open>
  Claim C4. \<open>appendRootModuleBlock\<close> appends the comment line with the description if
  the description is not empty, and then the block labelled with the task name whose body
  is built in this order: \<open>source\<close> as a literal string, \<open>version\<close> as a literal
  string if the version is not empty, \<open>services\<close> as the traversal \<open>var.services\<close>;
  the attribute of the condition if there is a condition and its
  \<open>SourceIncludesVariable\<close> holds; a blank line if there are variable names; and for
  each variable name, in the order of the list, the traversal \<open>var.<name>\<close> set with
  \<open>SetAttributeTraversal\<close>.
\<close>

theorem appendRootModuleBlock_structure:
  "appendRootModuleBlock body task cond varNames =
     body @ module_comment task @
     [Block ''module'' [Task.Name task]
        (variable_arguments varNames
           (condition_attribute cond (module_arguments task) @ blank_line varNames))]"
  by (rule appendRootModuleBlock_eq)

text \<open>
  Setting the traversal of a name that the body does not have yet appends it: for
  variable names that differ from each other and from the attributes already in the body,
  the arguments follow the blank line one by one.
\<close>

lemma variable_arguments_fresh:
  assumes "distinct varNames" and "set varNames \<inter> set (attributeNames moduleBody) = {}"
  shows "variable_arguments varNames (moduleBody @ blank_line varNames) =
     moduleBody @ blank_line varNames @
     map (\<lambda>name. Attribute name (Traversal [''var'', name])) varNames"
proof -
  have "set varNames \<inter> set (attributeNames (moduleBody @ blank_line varNames)) = {}"
    using assms(2) by (simp add: blank_line_def)
  from foldl_setAttribute_fresh [OF assms(1) this, of "\<lambda>name. Traversal [''var'', name]"]
  show ?thesis by (simp add: variable_arguments_def SetAttributeTraversal_def)
qed

lemma module_block_example:
  "appendRootModuleBlock [] example_task None [''one'', ''bool_true''] =
     [Comment ''# automate services'', Newline,
      Block ''module'' [''task'']
        [Attribute ''source''
           (Literal (CtyString ''namespace/consul-terraform-sync/consul//modules/test'')),
         Attribute ''version'' (Literal (CtyString ''0.0.0'')),
         Attribute ''services'' (Traversal [''var'', ''services'']),
         Newline,
         Attribute ''one'' (Traversal [''var'', ''one'']),
         Attribute ''bool_true'' (Traversal [''var'', ''bool_true''])]]"
  by code_simp

text \<open>
  Claim C10. With a nil condition the body of the module block is built from
  \<open>source\<close>, \<open>version\<close> and \<open>services\<close> alone, before the variables are set: no
  method of a condition takes part and no attribute comes from one. \<open>newMainTF\<close> then
  returns an error only if the writer refuses the task preamble or the content: the nil
  condition is not a cause of failure.
\<close>

theorem nil_condition:
  "appendRootModuleBlock body task None varNames =
     body @ module_comment task @
     [Block ''module'' [Task.Name task]
        (variable_arguments varNames (module_arguments task @ blank_line varNames))] \<and>
   attributeNames (module_arguments task) =
     ''source'' # (if Version task = [] then [] else [''version'']) @ [''services''] \<and>
   fst (newMainTF ex w filename (input\<lparr>Condition := None\<rparr>)) =
     (if wfail w (Suc (wcalls w)) \<or> wfail w (Suc (Suc (wcalls w))) then Some ErrWrite
      else None)"
  by (simp add: appendRootModuleBlock_eq condition_attribute_def newMainTF_error
      module_arguments_def)

subsection \<open>The terraform block\<close>

text \<open>
  Claim C8, as amended. The terraform block has a nested backend block exactly when a
  backend is set and its name is not empty; the block is labelled with the name of the
  backend and has the attributes of the backend in ascending order of their names, as
  literal values (\<open>backend_block\<close>). With no backend, or one whose name is empty, there
  is no backend block. This block is the second item of main.tf, built from the field
  \<open>backend\<close>, which \<open>init\<close> sets from \<open>Backend\<close> if that is not nil.
\<close>

theorem terraform_block_backend:
  "appendRootTerraformBlock ex body backend' providerInfo =
     body @ [Block ''terraform'' []
       (required_version ex # required_providers_block ex providerInfo @
        (case backend' of
           None \<Rightarrow> []
         | Some b \<Rightarrow> if NamedBlock.Name b = [] then [] else [backend_block b]))] \<and>
   (\<exists>rest. mainBody ex input =
      Newline #
      Block ''terraform'' []
        (required_version ex # required_providers_block ex (ProviderInfo input) @
         (case backend input of
            None \<Rightarrow> []
          | Some b \<Rightarrow> if NamedBlock.Name b = [] then [] else [backend_block b])) #
      rest) \<and>
   backend (init ex d) =
     (case Backend d of Some m \<Rightarrow> Some (NewNamedBlock ex m) | None \<Rightarrow> backend d)"
proof -
  have "backend (init ex d) =
     (case Backend d of Some m \<Rightarrow> Some (NewNamedBlock ex m) | None \<Rightarrow> backend d)"
    by (simp add: init_def Let_def split: option.splits)
  then show ?thesis
    by (simp add: appendRootTerraformBlock_eq mainBody_eq)
qed

lemma backend_block_example:
  "appendRootTerraformBlock example_externals []
     (Some \<lparr>NamedBlock.Name = ''consul'',
            Variables = [(''scheme'', CtyString ''https''), (''gzip'', CtyBool True)]\<rparr>) [] =
   [Block ''terraform'' []
      [Attribute ''required_version'' (Literal (CtyString ''>= 0.13.0, < 1.1.0'')),
       Block ''backend'' [''consul'']
         [Attribute ''gzip'' (Literal (CtyBool True)),
          Attribute ''scheme'' (Literal (CtyString ''https''))]]]"
  by code_simp

text \<open>
  Claim C8 as stated fails for a backend that is set and has the empty name, the
  \<^verbatim>\<open>NamedBlock\<close> of a configuration object that holds no named block: the terraform
  block, alone and in main.tf, has no backend block.
\<close>

theorem backend_block_counterexample:
  "appendRootTerraformBlock example_externals []
     (Some \<lparr>NamedBlock.Name = [], Variables = []\<rparr>) [] =
   [Block ''terraform'' []
      [Attribute ''required_version'' (Literal (CtyString ''>= 0.13.0, < 1.1.0''))]] \<and>
   mainBody example_externals
     (small_input\<lparr>backend := Some \<lparr>NamedBlock.Name = [], Variables = []\<rparr>\<rparr>) =
   [Newline,
    Block ''terraform'' []
      [Attribute ''required_version'' (Literal (CtyString ''>= 0.13.0, < 1.1.0''))],
    Newline,
    Newline,
    Block ''module'' [''t'']
      [Attribute ''source'' (Literal (CtyString ''m'')),
       Attribute ''services'' (Traversal [''var'', ''services''])]]"
  by code_simp

subsection \<open>The preamble and the task name\<close>

text \<open>
  Claim C6. Two inputs that differ in the task name only: if \<open>newMainTF\<close> returns no
  error for the one it returns none for the other, and the bytes that the two calls leave
  in the writer differ. The task name stands in the task preamble and, quoted, as the
  label of the module block.
\<close>

theorem task_name_distinguishes_main_tf:
  assumes "n \<noteq> Task.Name (Task input)"
    and "fst (newMainTF ex w filename input) = None"
  shows "fst (newMainTF ex w filename (input\<lparr>Task := (Task input)\<lparr>Task.Name := n\<rparr>\<rparr>)) = None \<and>
    wbuf (fst (snd (newMainTF ex w filename (input\<lparr>Task := (Task input)\<lparr>Task.Name := n\<rparr>\<rparr>)))) \<noteq>
    wbuf (fst (snd (newMainTF ex w filename input)))"
proof -
  let ?input' = "input\<lparr>Task := (Task input)\<lparr>Task.Name := n\<rparr>\<rparr>"
  have ok: "fst (newMainTF ex w filename ?input') = None"
    using assms(2) by (simp add: newMainTF_error)
  obtain X Y where split: "\<And>m.
     TaskPreamble m (Task.Description (Task input)) @
       Format_Bytes (mainBody ex (input\<lparr>Task := (Task input)\<lparr>Task.Name := m\<rparr>\<rparr>)) =
     ''# Task: '' @ m @ X @ quoted m @ Y"
    using content_split [of input ex] by blast
  have same: "input\<lparr>Task := (Task input)\<lparr>Task.Name := Task.Name (Task input)\<rparr>\<rparr> = input"
    by simp
  let ?P = "wbuf w @ (if wfail w (wcalls w) then [] else RootPreamble) @ ''# Task: ''"
  have b1: "wbuf (fst (snd (newMainTF ex w filename ?input'))) = ?P @ n @ X @ quoted n @ Y"
    using newMainTF_bytes [OF ok] split [of n] by simp
  have b2: "wbuf (fst (snd (newMainTF ex w filename input))) =
      ?P @ Task.Name (Task input) @ X @ quoted (Task.Name (Task input)) @ Y"
    using newMainTF_bytes [OF assms(2)] split [of "Task.Name (Task input)"] same by simp
  show ?thesis
    unfolding b1 b2 using ok name_in_bytes_differs [OF assms(1)] by simp
qed

theorem task_name_distinguishes_main_tf_witness:
  "''u'' \<noteq> Task.Name (Task small_input) \<and>
   fst (newMainTF example_externals example_writer RootFilename small_input) = None \<and>
   wbuf (fst (snd (newMainTF example_externals example_writer RootFilename
      (small_input\<lparr>Task := (Task small_input)\<lparr>Task.Name := ''u''\<rparr>\<rparr>)))) \<noteq>
   wbuf (fst (snd (newMainTF example_externals example_writer RootFilename small_input)))"
proof -
  have h1: "''u'' \<noteq> Task.Name (Task small_input)"
    by (simp add: small_input_def)
  have h2: "fst (newMainTF example_externals example_writer RootFilename small_input) = None"
    by (simp add: newMainTF_error example_writer_def)
  show ?thesis
    using h1 h2 task_name_distinguishes_main_tf [OF h1 h2] by blast
qed

subsection \<open>The loop of initModule\<close>

lemma filepath_Join_inject [simp]:
  "filepath_Join dir a = filepath_Join dir b \<longleftrightarrow> a = b"
  by (simp add: filepath_Join_def)

lemma fileExists_eq:
  "fileExists s name \<longleftrightarrow> stat_error s name \<or> files s name \<noteq> None"
  by (simp add: fileExists_def os_Stat_def)

text \<open>One round of the loop changes the files and the log only.\<close>

lemma initFile_oracles:
  "stat_error (snd (initFile input filename f s)) = stat_error s \<and>
   create_error (snd (initFile input filename f s)) = create_error s \<and>
   chmod_error (snd (initFile input filename f s)) = chmod_error s \<and>
   write_error (snd (initFile input filename f s)) = write_error s \<and>
   create_mode (snd (initFile input filename f s)) = create_mode s"
  by (simp add: initFile_def Let_def os_Create_def Chmod_def written_def Printf_def
      split: prod.splits option.splits)

lemma initFile_other_path:
  "p \<noteq> filepath_Join (Path input) filename \<Longrightarrow>
   files (snd (initFile input filename f s)) p = files s p"
  by (simp add: initFile_def Let_def os_Create_def Chmod_def written_def Printf_def
      split: prod.splits option.splits)

lemma initFile_skip:
  assumes "skipOverride input" and "fileExists s (filepath_Join (Path input) filename)"
  shows "initFile input filename f s =
     (None,
      if filename = ModuleVarsFilename \<and> len (RootModuleInputData.Variables input) = 0 then s
      else Printf (DEBUG_already_exists_skipping filename (Task.Name (Task input))) s)"
  using assms by (simp add: initFile_def Let_def)

lemma initFile_not_selected:
  "filename = ModuleVarsFilename \<Longrightarrow> len (RootModuleInputData.Variables input) = 0 \<Longrightarrow>
   initFile input filename f s = (None, s)"
  by (simp add: initFile_def)

lemma initFile_emits:
  assumes "fst (initFile input filename f s) = None"
    and "\<not> (filename = ModuleVarsFilename \<and> len (RootModuleInputData.Variables input) = 0)"
  shows "emitted input s (snd (initFile input filename f s)) filename"
  using assms
  by (auto simp: emitted_def initFile_def Let_def os_Create_def Chmod_def written_def Printf_def
      split: prod.splits option.splits if_splits)

lemma initModule_Cons:
  "initModule input ((filename, f) # fileFuncs) s =
     (if fst (initFile input filename f s) = None
      then initModule input fileFuncs (snd (initFile input filename f s))
      else initFile input filename f s)"
  by (cases "initFile input filename f s") (auto split: option.splits)

lemma initFile_untouched:
  assumes "filepath_Join (Path input) filename = p \<longrightarrow>
     (filename = ModuleVarsFilename \<and> len (RootModuleInputData.Variables input) = 0) \<or>
     (skipOverride input \<and> fileExists s p)"
  shows "files (snd (initFile input filename f s)) p = files s p"
proof (cases "filepath_Join (Path input) filename = p")
  case False
  then show ?thesis by (simp add: initFile_other_path)
next
  case True
  with assms show ?thesis
    by (auto simp: initFile_not_selected initFile_skip Printf_def)
qed

lemma initModule_untouched:
  assumes "\<forall>filename \<in> fst ` set fileFuncs. filepath_Join (Path input) filename = p \<longrightarrow>
     (filename = ModuleVarsFilename \<and> len (RootModuleInputData.Variables input) = 0) \<or>
     (skipOverride input \<and> fileExists s p)"
  shows "files (snd (initModule input fileFuncs s)) p = files s p"
  using assms
proof (induction fileFuncs arbitrary: s)
  case Nil
  then show ?case by simp
next
  case (Cons entry fileFuncs)
  obtain filename f where entry: "entry = (filename, f)" by (cases entry)
  let ?s1 = "snd (initFile input filename f s)"
  have step: "files ?s1 p = files s p"
    using Cons.prems by (intro initFile_untouched) (simp add: entry)
  have "stat_error ?s1 = stat_error s" by (simp add: initFile_oracles)
  with step have ex: "fileExists ?s1 p = fileExists s p" by (simp add: fileExists_eq)
  have "files (snd (initModule input fileFuncs ?s1)) p = files ?s1 p"
    using Cons.prems by (intro Cons.IH) (simp add: entry ex)
  with step show ?case by (simp add: entry initModule_Cons del: initModule.simps)
qed

lemma emitted_cong:
  assumes "files t' (filepath_Join (Path input) filename) = files s' (filepath_Join (Path input) filename)"
    and "files t (filepath_Join (Path input) filename) = files s (filepath_Join (Path input) filename)"
    and "stat_error t = stat_error s"
  shows "emitted input t t' filename = emitted input s s' filename"
  using assms by (simp add: emitted_def fileExists_eq Let_def)

lemma initModule_emits:
  assumes "distinct (map fst fileFuncs)" and "fst (initModule input fileFuncs s) = None"
    and "filename \<in> fst ` set fileFuncs"
    and "\<not> (filename = ModuleVarsFilename \<and> len (RootModuleInputData.Variables input) = 0)"
  shows "emitted input s (snd (initModule input fileFuncs s)) filename"
  using assms(1,2,3)
proof (induction fileFuncs arbitrary: s)
  case Nil
  then show ?case by simp
next
  case (Cons entry fileFuncs)
  obtain filename0 f where entry: "entry = (filename0, f)" by (cases entry)
  let ?s1 = "snd (initFile input filename0 f s)"
  let ?s' = "snd (initModule input fileFuncs ?s1)"
  let ?p = "filepath_Join (Path input) filename"
  have ok1: "fst (initFile input filename0 f s) = None"
    using Cons.prems(2) by (simp add: entry initModule_Cons del: initModule.simps split: if_splits)
  then have ok2: "fst (initModule input fileFuncs ?s1) = None"
    and final: "snd (initModule input (entry # fileFuncs) s) = ?s'"
    using Cons.prems(2) by (simp_all add: entry initModule_Cons del: initModule.simps)
  have or: "stat_error ?s1 = stat_error s" by (simp add: initFile_oracles)
  show ?case
  proof (cases "filename0 = filename")
    case True
    have "filename \<notin> fst ` set fileFuncs"
      using Cons.prems(1) True by (simp add: entry)
    then have "files ?s' ?p = files ?s1 ?p"
      by (intro initModule_untouched) auto
    then have "emitted input s ?s' filename = emitted input s ?s1 filename"
      by (intro emitted_cong) simp_all
    moreover have "emitted input s ?s1 filename"
      using ok1 assms(4) True by (simp add: initFile_emits)
    ultimately show ?thesis by (simp add: final)
  next
    case False
    then have "filename \<in> fst ` set fileFuncs"
      using Cons.prems(3) by (auto simp: entry)
    then have "emitted input ?s1 ?s' filename"
      using Cons.prems(1) ok2 by (intro Cons.IH) simp_all
    moreover have "files ?s1 ?p = files s ?p"
      using False by (simp add: initFile_other_path)
    then have "emitted input ?s1 ?s' filename = emitted input s ?s' filename"
      using or by (intro emitted_cong) simp_all
    ultimately show ?thesis by (simp add: final)
  qed
qed

lemma map_fst_range_map:
  "map fst (range_map order m) = filter (\<lambda>k. map_of m k \<noteq> None) order"
  by (induction order) (auto simp: range_map_def split: option.splits)

lemma init_fields:
  "Path (init ex d) = Path d" "skipOverride (init ex d) = skipOverride d"
  "FilePerms (init ex d) = FilePerms d"
  "RootModuleInputData.Variables (init ex d) = RootModuleInputData.Variables d"
  "Task (init ex d) = Task d" "Condition (init ex d) = Condition d"
  by (simp_all add: init_def Let_def split: option.splits)

lemma emitted_init: "emitted (init ex d) s s' filename = emitted d s s' filename"
  by (simp add: emitted_def init_fields)

lemma fileFuncs_keys:
  "map fst (rootFileFuncs ex @ tfvarsFileFuncs ex) =
     [RootFilename, VarsFilename, ModuleVarsFilename, TFVarsTmplFilename,
      ProvidersTFVarsFilename]"
  by (simp add: rootFileFuncs_def tfvarsFileFuncs_def)

lemma range_map_keys:
  assumes "mset order = mset (map fst m)"
  shows "map fst (range_map order m) = order"
proof -
  have "set order = fst ` set m" using assms by (metis set_mset_mset set_map)
  then have "\<forall>k \<in> set order. map_of m k \<noteq> None"
    by (simp add: map_of_eq_None_iff)
  then show ?thesis by (simp add: map_fst_range_map)
qed

lemma initFile_renders:
  assumes "renders input filename s"
  shows "fst (initFile input filename f s) =
           fst (f \<lparr>wbuf = [], wcalls = 0,
                   wfail = write_error s (filepath_Join (Path input) filename)\<rparr> filename input) \<and>
         set (snd (snd (f \<lparr>wbuf = [], wcalls = 0,
                   wfail = write_error s (filepath_Join (Path input) filename)\<rparr> filename input)))
           \<subseteq> set (logs (snd (initFile input filename f s)))"
  using assms
  by (auto simp: renders_def initFile_def Let_def os_Create_def Chmod_def written_def Printf_def
      fileWriter_def split: prod.splits option.splits)

subsection \<open>Which files are written\<close>

text \<open>
  Claim C5, as amended. For a call of \<open>InitRootModule\<close> that returns no error, whatever
  the order in which the five file names are visited: main.tf, variables.tf,
  terraform.tfvars.tmpl and providers.tfvars are emitted; variables.module.tf is emitted
  if the variables of the input are not empty, and is not touched (not created, and left
  as it was if it was there) if they are empty.
\<close>

theorem InitRootModule_files:
  assumes "mset order = mset (map fst (rootFileFuncs ex @ tfvarsFileFuncs ex))"
    and "fst (InitRootModule ex order input s) = None"
  shows "emitted input s (snd (InitRootModule ex order input s)) RootFilename \<and>
         emitted input s (snd (InitRootModule ex order input s)) VarsFilename \<and>
         emitted input s (snd (InitRootModule ex order input s)) TFVarsTmplFilename \<and>
         emitted input s (snd (InitRootModule ex order input s)) ProvidersTFVarsFilename \<and>
         (if RootModuleInputData.Variables input = []
          then files (snd (InitRootModule ex order input s))
                 (filepath_Join (Path input) ModuleVarsFilename) =
               files s (filepath_Join (Path input) ModuleVarsFilename)
          else emitted input s (snd (InitRootModule ex order input s)) ModuleVarsFilename)"
proof -
  let ?m = "rootFileFuncs ex @ tfvarsFileFuncs ex"
  let ?ffs = "range_map order ?m"
  let ?d = "init ex input"
  have run: "InitRootModule ex order input s = initModule ?d ?ffs s"
    by (simp add: InitRootModule_def Let_def)
  have ks: "map fst ?ffs = order" by (rule range_map_keys [OF assms(1)])
  have "distinct (map fst ?m)"
    unfolding fileFuncs_keys
    by (simp add: RootFilename_def VarsFilename_def ModuleVarsFilename_def
        TFVarsTmplFilename_def ProvidersTFVarsFilename_def)
  then have d: "distinct (map fst ?ffs)"
    using assms(1) ks by (metis mset_eq_imp_distinct_iff)
  have "set order = set (map fst ?m)" using assms(1) by (metis set_mset_mset)
  then have mem: "fst ` set ?ffs =
      {RootFilename, VarsFilename, ModuleVarsFilename, TFVarsTmplFilename,
       ProvidersTFVarsFilename}"
    using ks unfolding fileFuncs_keys by (metis list.set(1) list.set(2) set_map)
  have ok: "fst (initModule ?d ?ffs s) = None" using assms(2) by (simp add: run)
  have em: "emitted input s (snd (initModule ?d ?ffs s)) filename"
    if "filename \<in> fst ` set ?ffs"
      and "\<not> (filename = ModuleVarsFilename \<and> RootModuleInputData.Variables input = [])"
    for filename
    using initModule_emits [OF d ok that(1)] that(2)
    by (simp add: emitted_init init_fields len_eq_0)
  have un: "files (snd (initModule ?d ?ffs s)) (filepath_Join (Path input) ModuleVarsFilename) =
      files s (filepath_Join (Path input) ModuleVarsFilename)"
    if "RootModuleInputData.Variables input = []"
    using that initModule_untouched [of ?ffs ?d "filepath_Join (Path input) ModuleVarsFilename" s]
    by (simp add: init_fields len_eq_0)
  show ?thesis
    unfolding run using em un mem
    by (simp add: RootFilename_def VarsFilename_def ModuleVarsFilename_def
        TFVarsTmplFilename_def ProvidersTFVarsFilename_def)
qed

theorem InitRootModule_files_witness:
  "mset example_order =
     mset (map fst (rootFileFuncs example_externals @ tfvarsFileFuncs example_externals)) \<and>
   fst (InitRootModule example_externals example_order small_input example_sys) = None \<and>
   emitted small_input example_sys
     (snd (InitRootModule example_externals example_order small_input example_sys))
     RootFilename \<and>
   emitted small_input example_sys
     (snd (InitRootModule example_externals example_order small_input example_sys))
     VarsFilename \<and>
   emitted small_input example_sys
     (snd (InitRootModule example_externals example_order small_input example_sys))
     TFVarsTmplFilename \<and>
   emitted small_input example_sys
     (snd (InitRootModule example_externals example_order small_input example_sys))
     ProvidersTFVarsFilename \<and>
   files (snd (InitRootModule example_externals example_order small_input example_sys))
     (filepath_Join (Path small_input) ModuleVarsFilename) = None"
proof -
  have h1: "mset example_order =
      mset (map fst (rootFileFuncs example_externals @ tfvarsFileFuncs example_externals))"
    by (simp add: example_order_def rootFileFuncs_def tfvarsFileFuncs_def)
  have h2: "fst (InitRootModule example_externals example_order small_input example_sys) = None"
    by code_simp
  have h3: "RootModuleInputData.Variables small_input = []"
    by (simp add: small_input_def)
  have h4: "files example_sys (filepath_Join (Path small_input) ModuleVarsFilename) = None"
    by (simp add: example_sys_def)
  show ?thesis
    using h1 h2 h3 h4 InitRootModule_files [OF h1 h2] by simp
qed

text \<open>
  Claim C5 as stated fails for a call in which a file cannot be created: the call
  returns the error of \<^verbatim>\<open>os.Create\<close> at the first file and emits nothing.
\<close>

theorem always_emitted_counterexample:
  "fst (InitRootModule example_externals example_order small_input failing_sys) =
     Some ErrCreate \<and>
   \<not> fileExists (snd (InitRootModule example_externals example_order small_input failing_sys))
       ''d/main.tf'' \<and>
   \<not> fileExists (snd (InitRootModule example_externals example_order small_input failing_sys))
       ''d/variables.tf'' \<and>
   \<not> fileExists (snd (InitRootModule example_externals example_order small_input failing_sys))
       ''d/providers.tfvars''"
  by code_simp

subsection \<open>Existing files in skip mode\<close>

text \<open>
  Claim C9. With \<open>skipOverride\<close> set and the destination file existing, the round of
  the loop for that file returns no error and leaves every file as it is; its result does
  not depend on the function that would write the file, which is not called; and after
  the whole loop, and after \<open>InitRootModule\<close>, the file has the bytes and the permission
  bits that it had before.
\<close>

theorem skip_existing:
  assumes "skipOverride input"
    and "fileExists s (filepath_Join (Path input) filename)"
  shows "fst (initFile input filename newFileFunc s) = None \<and>
         files (snd (initFile input filename newFileFunc s)) = files s \<and>
         initFile input filename newFileFunc s = initFile input filename newFileFunc' s \<and>
         files (snd (initModule input fileFuncs s)) (filepath_Join (Path input) filename) =
           files s (filepath_Join (Path input) filename) \<and>
         files (snd (InitRootModule ex order input s)) (filepath_Join (Path input) filename) =
           files s (filepath_Join (Path input) filename)"
proof -
  have one: "initFile input filename g s =
     (None,
      if filename = ModuleVarsFilename \<and> len (RootModuleInputData.Variables input) = 0 then s
      else Printf (DEBUG_already_exists_skipping filename (Task.Name (Task input))) s)" for g
    by (rule initFile_skip [OF assms])
  have loop: "files (snd (initModule d ffs s)) (filepath_Join (Path input) filename) =
           files s (filepath_Join (Path input) filename)"
    if "Path d = Path input" "skipOverride d" for d ffs
    using that assms(2) by (intro initModule_untouched) simp
  have "files (snd (InitRootModule ex order input s)) (filepath_Join (Path input) filename) =
           files s (filepath_Join (Path input) filename)"
    unfolding InitRootModule_def Let_def
    by (rule loop) (simp_all add: init_fields assms(1))
  then show ?thesis
    using loop [of input fileFuncs] assms(1) by (simp add: one Printf_def)
qed

theorem skip_existing_witness:
  "skipOverride skip_input \<and>
   fileExists sentinel_sys (filepath_Join (Path skip_input) RootFilename) \<and>
   fst (InitRootModule example_externals example_order skip_input sentinel_sys) = None \<and>
   files (snd (InitRootModule example_externals example_order skip_input sentinel_sys))
     ''d/main.tf'' =
     Some \<lparr>fcontent = ''sentinel'', fmode = 384\<rparr>"
proof -
  have h1: "skipOverride skip_input" by (simp add: skip_input_def)
  have p: "filepath_Join (Path skip_input) RootFilename = ''d/main.tf''"
    by (simp add: skip_input_def small_input_def filepath_Join_def RootFilename_def)
  have h2: "fileExists sentinel_sys (filepath_Join (Path skip_input) RootFilename)"
    unfolding p by (simp add: fileExists_eq sentinel_sys_def)
  have h3: "fst (InitRootModule example_externals example_order skip_input sentinel_sys) = None"
    by code_simp
  have f: "files sentinel_sys ''d/main.tf'' = Some \<lparr>fcontent = ''sentinel'', fmode = 384\<rparr>"
    by (simp add: sentinel_sys_def)
  show ?thesis
    using h1 h2 h3 f
      skip_existing [OF h1 h2, of example_renderer example_renderer "[]" example_externals
        example_order]
    unfolding p by simp
qed

subsection \<open>Failing writes of the preamble\<close>

text \<open>
  Claim C7, as amended. A failure of the write of the warning preamble is logged and
  goes no further: if the task preamble and the content are accepted, \<open>newMainTF\<close>
  returns no error, the round of the loop for the file ends without error and the loop
  goes on with the other files. A failure of the write of the task preamble is logged as
  well, and is returned: by \<open>newMainTF\<close>, by the round of the loop and by the loop.
\<close>

theorem preamble_write_failures:
  "(\<not> wfail w (Suc (wcalls w)) \<and> \<not> wfail w (Suc (Suc (wcalls w))) \<longrightarrow>
      fst (newMainTF ex w filename input) = None \<and>
      snd (snd (newMainTF ex w filename input)) =
        (if wfail w (wcalls w) then [WARN_unable_to_write_preamble_warning filename] else [])) \<and>
   (wfail w (Suc (wcalls w)) \<longrightarrow>
      fst (newMainTF ex w filename input) = Some ErrWrite \<and>
      WARN_unable_to_write_task_preamble_warning filename
        \<in> set (snd (snd (newMainTF ex w filename input)))) \<and>
   (renders input filename s \<and>
    write_error s (filepath_Join (Path input) filename) 0 \<and>
    \<not> write_error s (filepath_Join (Path input) filename) 1 \<and>
    \<not> write_error s (filepath_Join (Path input) filename) 2 \<longrightarrow>
      WARN_unable_to_write_preamble_warning filename
        \<in> set (logs (snd (initFile input filename (newMainTF ex) s))) \<and>
      fst (initFile input filename (newMainTF ex) s) = None \<and>
      initModule input ((filename, newMainTF ex) # fileFuncs) s =
        initModule input fileFuncs (snd (initFile input filename (newMainTF ex) s))) \<and>
   (renders input filename s \<and>
    write_error s (filepath_Join (Path input) filename) 1 \<longrightarrow>
      WARN_unable_to_write_task_preamble_warning filename
        \<in> set (logs (snd (initFile input filename (newMainTF ex) s))) \<and>
      fst (initFile input filename (newMainTF ex) s) = Some ErrWrite \<and>
      fst (initModule input ((filename, newMainTF ex) # fileFuncs) s) = Some ErrWrite)"
proof (intro conjI impI)
  assume "\<not> wfail w (Suc (wcalls w)) \<and> \<not> wfail w (Suc (Suc (wcalls w)))"
  then show "fst (newMainTF ex w filename input) = None"
    and "snd (snd (newMainTF ex w filename input)) =
        (if wfail w (wcalls w) then [WARN_unable_to_write_preamble_warning filename] else [])"
    by (simp_all add: newMainTF_error newMainTF_log)
next
  assume "wfail w (Suc (wcalls w))"
  then show "fst (newMainTF ex w filename input) = Some ErrWrite"
    and "WARN_unable_to_write_task_preamble_warning filename
        \<in> set (snd (snd (newMainTF ex w filename input)))"
    by (simp_all add: newMainTF_error newMainTF_log)
next
  let ?p = "filepath_Join (Path input) filename"
  let ?w = "\<lparr>wbuf = [], wcalls = 0, wfail = write_error s ?p\<rparr>"
  assume a: "renders input filename s \<and> write_error s ?p 0 \<and> \<not> write_error s ?p 1 \<and>
    \<not> write_error s ?p 2"
  then have r: "fst (newMainTF ex ?w filename input) = None"
    and l: "WARN_unable_to_write_preamble_warning filename
      \<in> set (snd (snd (newMainTF ex ?w filename input)))"
    by (simp_all add: newMainTF_error newMainTF_log numeral_2_eq_2)
  from a have rn: "renders input filename s" by simp
  show "WARN_unable_to_write_preamble_warning filename
        \<in> set (logs (snd (initFile input filename (newMainTF ex) s)))"
    using initFile_renders [OF rn, of "newMainTF ex"] l by blast
  show ok: "fst (initFile input filename (newMainTF ex) s) = None"
    using initFile_renders [OF rn, of "newMainTF ex"] r by simp
  show "initModule input ((filename, newMainTF ex) # fileFuncs) s =
        initModule input fileFuncs (snd (initFile input filename (newMainTF ex) s))"
    using ok by (simp add: initModule_Cons del: initModule.simps)
next
  let ?p = "filepath_Join (Path input) filename"
  let ?w = "\<lparr>wbuf = [], wcalls = 0, wfail = write_error s ?p\<rparr>"
  assume a: "renders input filename s \<and> write_error s ?p 1"
  then have r: "fst (newMainTF ex ?w filename input) = Some ErrWrite"
    and l: "WARN_unable_to_write_task_preamble_warning filename
      \<in> set (snd (snd (newMainTF ex ?w filename input)))"
    by (simp_all add: newMainTF_error newMainTF_log)
  from a have rn: "renders input filename s" by simp
  show "WARN_unable_to_write_task_preamble_warning filename
        \<in> set (logs (snd (initFile input filename (newMainTF ex) s)))"
    using initFile_renders [OF rn, of "newMainTF ex"] l by blast
  show err: "fst (initFile input filename (newMainTF ex) s) = Some ErrWrite"
    using initFile_renders [OF rn, of "newMainTF ex"] r by simp
  show "fst (initModule input ((filename, newMainTF ex) # fileFuncs) s) = Some ErrWrite"
    using err by (simp add: initModule_Cons del: initModule.simps)
qed

theorem preamble_write_failures_witness:
  "wfail refuses_first (wcalls refuses_first) \<and>
   fst (newMainTF example_externals refuses_first RootFilename small_input) = None \<and>
   snd (snd (newMainTF example_externals refuses_first RootFilename small_input)) =
     [WARN_unable_to_write_preamble_warning RootFilename] \<and>
   wfail refuses_second (Suc (wcalls refuses_second)) \<and>
   fst (newMainTF example_externals refuses_second RootFilename small_input) =
     Some ErrWrite \<and>
   renders small_input RootFilename no_preamble_sys \<and>
   write_error no_preamble_sys (filepath_Join (Path small_input) RootFilename) 0 \<and>
   fst (initFile small_input RootFilename (newMainTF example_externals) no_preamble_sys) =
     None \<and>
   renders small_input RootFilename no_task_preamble_sys \<and>
   write_error no_task_preamble_sys (filepath_Join (Path small_input) RootFilename) 1 \<and>
   fst (initModule small_input [(RootFilename, newMainTF example_externals)]
          no_task_preamble_sys) = Some ErrWrite"
proof -
  have p: "filepath_Join (Path small_input) RootFilename = ''d/main.tf''"
    by (simp add: small_input_def filepath_Join_def RootFilename_def)
  have w0: "wfail refuses_first (wcalls refuses_first)"
    "\<not> wfail refuses_first (Suc (wcalls refuses_first))"
    "\<not> wfail refuses_first (Suc (Suc (wcalls refuses_first)))"
    by (simp_all add: refuses_first_def example_writer_def)
  have w1: "wfail refuses_second (Suc (wcalls refuses_second))"
    by (simp add: refuses_second_def example_writer_def)
  have s0: "renders small_input RootFilename no_preamble_sys"
    "write_error no_preamble_sys ''d/main.tf'' 0"
    "\<not> write_error no_preamble_sys ''d/main.tf'' 1"
    "\<not> write_error no_preamble_sys ''d/main.tf'' 2"
    unfolding renders_def p
    by (simp_all add: no_preamble_sys_def example_sys_def fileExists_eq RootFilename_def
        ModuleVarsFilename_def)
  have s1: "renders small_input RootFilename no_task_preamble_sys"
    "write_error no_task_preamble_sys ''d/main.tf'' 1"
    unfolding renders_def p
    by (simp_all add: no_task_preamble_sys_def example_sys_def fileExists_eq RootFilename_def
        ModuleVarsFilename_def)
  show ?thesis
    using preamble_write_failures
            [of refuses_first example_externals RootFilename small_input no_preamble_sys "[]"]
          preamble_write_failures
            [of refuses_second example_externals RootFilename small_input no_task_preamble_sys
              "[]"]
          w0 w1 s0 s1
    unfolding p by simp
qed

text \<open>
  Claim C7 as stated fails for the task preamble: \<open>writePreamble\<close> returns the error of
  that write, \<open>newMainTF\<close> returns it, and so does \<open>InitRootModule\<close>.
\<close>

theorem preamble_swallowed_counterexample:
  "fst (newMainTF example_externals refuses_second RootFilename small_input) =
     Some ErrWrite \<and>
   fst (InitRootModule example_externals example_order small_input no_task_preamble_sys) =
     Some ErrWrite"
  by code_simp

end
